theory Spec2Isabelle
  imports Main "HOL-Library.Word"
begin

section \<open>Strings of the front end\<close>

text \<open>
  Text is modelled as \<^typ>\<open>string\<close>: a list of code units below 256 (ISO 8859-1).
  On this range the ECMAScript notions used by the source are closed: the characters
  matched by \<^verbatim>\<open>\s\<close> and removed by \<^verbatim>\<open>trim()\<close> are TAB, LF, VT, FF, CR, SPACE
  and NBSP, and \<^verbatim>\<open>toLowerCase()\<close> adds 32 to the code units of A-Z and of the
  capital letters U+00C0 to U+00DE (U+00D7 excepted).
\<close>

definition dquote :: char where
  "dquote = CHR 0x22"

definition comma :: char where
  "comma = CHR '',''"

definition is_space :: "char \<Rightarrow> bool" where
  "is_space c =
     (c = CHR 0x09 \<or> c = CHR 0x0A \<or> c = CHR 0x0B \<or> c = CHR 0x0C \<or> c = CHR 0x0D
      \<or> c = CHR 0x20 \<or> c = CHR 0xA0)"

text \<open>\<^verbatim>\<open>String.prototype.trim\<close>.\<close>

definition trim :: "string \<Rightarrow> string" where
  "trim s = rev (dropWhile is_space (rev (dropWhile is_space s)))"

definition is_upper :: "char \<Rightarrow> bool" where
  "is_upper c =
     (let n = (of_char c :: nat)
      in (65 \<le> n \<and> n \<le> 90) \<or> (192 \<le> n \<and> n \<le> 222 \<and> n \<noteq> 215))"

text \<open>Adding 32 to an upper-case code unit sets its bit 5, which is clear there.\<close>

definition lower_char :: "char \<Rightarrow> char" where
  "lower_char c =
     (if is_upper c
      then Char (digit0 c) (digit1 c) (digit2 c) (digit3 c) (digit4 c) True (digit6 c) (digit7 c)
      else c)"

definition toLowerCase :: "string \<Rightarrow> string" where
  "toLowerCase s = map lower_char s"

text \<open>\<^verbatim>\<open>s.startsWith(p)\<close> and \<^verbatim>\<open>s.includes(p)\<close>.\<close>

fun startsWith :: "string \<Rightarrow> string \<Rightarrow> bool" where
  "startsWith s [] = True"
| "startsWith [] (p # ps) = False"
| "startsWith (c # cs) (p # ps) = (c = p \<and> startsWith cs ps)"

fun str_includes :: "string \<Rightarrow> string \<Rightarrow> bool" where
  "str_includes [] p = (p = [])"
| "str_includes (c # cs) p = (startsWith (c # cs) p \<or> str_includes cs p)"

text \<open>Decimal rendering of a non-negative number inside a template literal.\<close>

definition digit_char :: "nat \<Rightarrow> char" where
  "digit_char n = ''0123456789'' ! (n mod 10)"

fun string_of_nat :: "nat \<Rightarrow> string" where
  "string_of_nat n =
     (if n < 10 then [digit_char n] else string_of_nat (n div 10) @ [digit_char (n mod 10)])"

declare string_of_nat.simps [simp del]

text \<open>
  \<^verbatim>\<open>text.split(/\r?\n/)\<close>: the separators are LF and CR LF; a CR that is not followed
  by LF stays in its piece. The accumulator holds the piece being read.
\<close>

fun split_lines :: "string \<Rightarrow> string \<Rightarrow> string list" where
  "split_lines cur [] = [cur]"
| "split_lines cur (c # cs) =
     (if c = CHR 0x0A then cur # split_lines [] cs
      else if c = CHR 0x0D then
        (case cs of
           [] \<Rightarrow> split_lines (cur @ [c]) cs
         | d # ds \<Rightarrow> if d = CHR 0x0A then cur # split_lines [] ds
                     else split_lines (cur @ [c]) cs)
      else split_lines (cur @ [c]) cs)"

text \<open>
  \<^verbatim>\<open>rawText.split(/\r?\n/).map((line) => line.trim()).filter(Boolean)\<close>, the first
  statement of both bulk parsers: a string is truthy when it is not empty.
\<close>

definition nonblank_lines :: "string \<Rightarrow> string list" where
  "nonblank_lines rawText = filter (\<lambda>l. l \<noteq> []) (map trim (split_lines [] rawText))"

section \<open>parseCsvLine\<close>

text \<open>
  The loop of \<^verbatim>\<open>parseCsvLine\<close> with its variables \<^verbatim>\<open>i\<close>, \<^verbatim>\<open>current\<close>,
  \<^verbatim>\<open>inQuotes\<close> and \<^verbatim>\<open>out\<close>. Reading \<^verbatim>\<open>line[i + 1]\<close> past the end gives
  \<^verbatim>\<open>undefined\<close>, which is not a quote.
\<close>

function parseCsvLine_loop :: "string \<Rightarrow> nat \<Rightarrow> string \<Rightarrow> bool \<Rightarrow> string list \<Rightarrow> string list" where
  "parseCsvLine_loop line i current inQuotes out =
     (if i < length line then
        (let ch = line ! i in
         if ch = dquote then
           (if inQuotes \<and> i + 1 < length line \<and> line ! (i + 1) = dquote
            then parseCsvLine_loop line (i + 1 + 1) (current @ [dquote]) inQuotes out
            else parseCsvLine_loop line (i + 1) current (\<not> inQuotes) out)
         else if ch = comma \<and> \<not> inQuotes
           then parseCsvLine_loop line (i + 1) [] inQuotes (out @ [trim current])
         else parseCsvLine_loop line (i + 1) (current @ [ch]) inQuotes out)
      else out @ [trim current])"
  by pat_completeness auto
termination
  by (relation "measure (\<lambda>(line, i, current, inQuotes, out). length line - i)") auto

declare parseCsvLine_loop.simps [simp del]

definition parseCsvLine :: "string \<Rightarrow> string list" where
  "parseCsvLine line = parseCsvLine_loop line 0 [] False []"

text \<open>
  The contract of the row parser in the words of the specification, by recursion on the
  text that is left: a comma outside quotes ends a field, a quote toggles the quoting
  state, a doubled quote inside quotes is one literal quote, and the end of the line ends
  the last field whatever the quoting state.
\<close>

fun csv_fields :: "bool \<Rightarrow> string \<Rightarrow> string \<Rightarrow> string list" where
  "csv_fields inQuotes current [] = [trim current]"
| "csv_fields inQuotes current [c] =
     (if c = dquote then csv_fields (\<not> inQuotes) current []
      else if c = comma \<and> \<not> inQuotes then trim current # csv_fields inQuotes [] []
      else csv_fields inQuotes (current @ [c]) [])"
| "csv_fields inQuotes current (c # d # ds) =
     (if c = dquote then
        (if inQuotes \<and> d = dquote then csv_fields inQuotes (current @ [dquote]) ds
         else csv_fields (\<not> inQuotes) current (d # ds))
      else if c = comma \<and> \<not> inQuotes then trim current # csv_fields inQuotes [] (d # ds)
      else csv_fields inQuotes (current @ [c]) (d # ds))"

text \<open>Splitting at every comma, for lines without quotes.\<close>

fun split_commas :: "string \<Rightarrow> string \<Rightarrow> string list" where
  "split_commas cur [] = [cur]"
| "split_commas cur (c # cs) =
     (if c = comma then cur # split_commas [] cs else split_commas (cur @ [c]) cs)"

section \<open>JavaScript values\<close>

text \<open>
  The values that flow through the code: what \<^verbatim>\<open>JSON.parse\<close> returns, object
  literals, and \<^verbatim>\<open>undefined\<close> for a property that is not there. Numbers are the
  integers from \<open>- 2 ^ 53\<close> to \<open>2 ^ 53 - 1\<close>, read from a 54-bit word by
  \<^const>\<open>sint\<close>: a double holds each of them exactly and JavaScript prints each of them
  in plain decimal. An object is the list of its properties in insertion order, with one
  entry for each key.
\<close>

datatype jsval =
    JUndefined
  | JNull
  | JBool bool
  | JNum "54 word"
  | JStr string
  | JArr "jsval list"
  | JObj "(string \<times> jsval) list"

type_synonym jsobj = "(string \<times> jsval) list"

text \<open>Truthiness, as tested by \<^verbatim>\<open>if (x)\<close>, \<^verbatim>\<open>!x\<close> and \<^verbatim>\<open>x || y\<close>.\<close>

fun truthy :: "jsval \<Rightarrow> bool" where
  "truthy JUndefined = False"
| "truthy JNull = False"
| "truthy (JBool b) = b"
| "truthy (JNum n) = (n \<noteq> 0)"
| "truthy (JStr s) = (s \<noteq> [])"
| "truthy (JArr xs) = True"
| "truthy (JObj kvs) = True"

definition js_or :: "jsval \<Rightarrow> jsval \<Rightarrow> jsval" where
  "js_or a b = (if truthy a then a else b)"

definition js_and :: "jsval \<Rightarrow> jsval \<Rightarrow> jsval" where
  "js_and a b = (if truthy a then b else a)"

fun is_boolean :: "jsval \<Rightarrow> bool" where
  "is_boolean (JBool b) = True"
| "is_boolean v = False"

fun is_string :: "jsval \<Rightarrow> bool" where
  "is_string (JStr s) = True"
| "is_string v = False"

text \<open>\<^verbatim>\<open>typeof v === "object"\<close> holds of objects, arrays and \<^verbatim>\<open>null\<close>.\<close>

fun typeof_object :: "jsval \<Rightarrow> bool" where
  "typeof_object JNull = True"
| "typeof_object (JArr xs) = True"
| "typeof_object (JObj kvs) = True"
| "typeof_object v = False"

text \<open>Reading and writing a property of an object held as a property list.\<close>

definition obj_get :: "jsobj \<Rightarrow> string \<Rightarrow> jsval" where
  "obj_get kvs k = (case map_of kvs k of None \<Rightarrow> JUndefined | Some v \<Rightarrow> v)"

fun obj_set :: "jsobj \<Rightarrow> string \<Rightarrow> jsval \<Rightarrow> jsobj" where
  "obj_set [] k v = [(k, v)]"
| "obj_set ((k', v') # kvs) k v =
     (if k' = k then (k, v) # kvs else (k', v') # obj_set kvs k v)"

text \<open>
  \<^verbatim>\<open>v?.k\<close> for the property names the code reads (none of them is a built-in
  property of a string or an array): \<^verbatim>\<open>undefined\<close> unless \<open>v\<close> is an object that
  has the key. \<^verbatim>\<open>v.k\<close> is the same read, except that it throws a TypeError when
  \<open>v\<close> is \<^verbatim>\<open>null\<close> or \<^verbatim>\<open>undefined\<close>; that case is written out where it can occur.
\<close>

fun js_get :: "jsval \<Rightarrow> string \<Rightarrow> jsval" where
  "js_get (JObj kvs) k = obj_get kvs k"
| "js_get v k = JUndefined"

text \<open>\<^verbatim>\<open>{ ...a, ...b }\<close>: the properties of \<open>b\<close> are written into \<open>a\<close> one by one.\<close>

fun obj_spread :: "jsobj \<Rightarrow> jsobj \<Rightarrow> jsobj" where
  "obj_spread a [] = a"
| "obj_spread a ((k, v) # kvs) = obj_spread (obj_set a k v) kvs"

section \<open>Front end: payloads and the outbound call\<close>

definition API_URL :: string where
  "API_URL = ''https://guestinvitemobsa-a3g2dxbdaqfuazap.australiasoutheast-01.azurewebsites.net/api/inviteguest''"

definition MAX_NAME_LENGTH :: nat where
  "MAX_NAME_LENGTH = 40"

definition MAX_BULK_INVITES :: nat where
  "MAX_BULK_INVITES = 100"

text \<open>
  \<^verbatim>\<open>new URL(value)\<close> is the platform's parser. It is a parameter of the model: it
  returns the protocol and the host name of the parsed address, or nothing when the
  constructor throws.
\<close>

record url =
  protocol :: string
  hostname :: string

type_synonym url_parser = "string \<Rightarrow> url option"

definition isValidHttpUrl :: "url_parser \<Rightarrow> string \<Rightarrow> bool" where
  "isValidHttpUrl URL_new value =
     (if value = [] then False
      else case URL_new value of
        None \<Rightarrow> False
      | Some u \<Rightarrow>
          (let isHttp = (protocol u = ''https:'' \<or> protocol u = ''http:'');
               isLocalhost = (hostname u \<in> set [''localhost'', ''127.0.0.1''])
           in if \<not> isHttp then False
              else if protocol u = ''http:'' \<and> \<not> isLocalhost then False
              else True))"

text \<open>\<^verbatim>\<open>value.replace(/\s+/g, " ")\<close>: every maximal run of white space becomes one space.\<close>

function collapse_spaces :: "string \<Rightarrow> string" where
  "collapse_spaces [] = []"
| "collapse_spaces (c # cs) =
     (if is_space c then CHR '' '' # collapse_spaces (dropWhile is_space cs)
      else c # collapse_spaces cs)"
  by pat_completeness auto
termination
  by (relation "measure length") (auto simp: length_dropWhile_le less_Suc_eq_le)

definition sanitizeName :: "string \<Rightarrow> string" where
  "sanitizeName value = take MAX_NAME_LENGTH (collapse_spaces (trim value))"

definition normalizeEmail :: "string \<Rightarrow> string" where
  "normalizeEmail value = toLowerCase (trim value)"

text \<open>\<^verbatim>\<open>parts.join(" ")\<close>.\<close>

fun join_space :: "string list \<Rightarrow> string" where
  "join_space [] = []"
| "join_space [p] = p"
| "join_space (p # q # ps) = p @ '' '' @ join_space (q # ps)"

definition getDisplayName :: "string \<Rightarrow> string \<Rightarrow> string" where
  "getDisplayName firstName lastName =
     trim (join_space (filter (\<lambda>p. p \<noteq> []) [firstName, lastName]))"

text \<open>
  \<^verbatim>\<open>parseBoolean\<close> has one call site, which gives it a cell of a row (a string, or
  \<^verbatim>\<open>undefined\<close> past the end of the row) or the constant \<^verbatim>\<open>true\<close>. These are the
  values of \<open>flag_source\<close>, and \<open>flag_text\<close> is \<^verbatim>\<open>String(value || "")\<close> of such a
  value.
\<close>

datatype flag_source = CellValue "string option" | BoolValue bool

fun flag_text :: "flag_source \<Rightarrow> string" where
  "flag_text (CellValue None) = ''''"
| "flag_text (CellValue (Some s)) = s"
| "flag_text (BoolValue b) = (if b then ''true'' else '''')"

definition parseBoolean :: "flag_source \<Rightarrow> bool \<Rightarrow> bool" where
  "parseBoolean value fallback =
     (let normalized = toLowerCase (trim (flag_text value))
      in if normalized = ''true'' then True
         else if normalized = ''false'' then False
         else fallback)"

definition safeResponse :: "jsval \<Rightarrow> jsval" where
  "safeResponse payload =
     (if \<not> truthy payload \<or> \<not> typeof_object payload then JNull
      else
        let safe = [];
            safe = (if is_string (js_get payload ''message'')
                    then obj_set safe ''message'' (js_get payload ''message'') else safe);
            safe = (if is_string (js_get payload ''status'')
                    then obj_set safe ''status'' (js_get payload ''status'') else safe);
            safe = (if is_string (js_get payload ''code'')
                    then obj_set safe ''code'' (js_get payload ''code'') else safe);
            safe = (if is_string (js_get payload ''error'')
                    then obj_set safe ''error'' (js_get payload ''error'') else safe);
            safe = (if is_string (js_get payload ''detail'')
                    then obj_set safe ''detail'' (js_get payload ''detail'') else safe)
        in if safe \<noteq> [] then JObj safe else JNull)"

definition buildInvitePayload :: "jsobj \<Rightarrow> jsobj" where
  "buildInvitePayload payload =
     (let body = [(''email'', obj_get payload ''email''),
                  (''displayName'', js_or (obj_get payload ''displayName'') (JStr ''''))];
          body = (if truthy (obj_get payload ''firstName'')
                  then obj_set body ''firstName'' (obj_get payload ''firstName'') else body);
          body = (if truthy (obj_get payload ''lastName'')
                  then obj_set body ''lastName'' (obj_get payload ''lastName'') else body);
          body = (if truthy (obj_get payload ''inviteRedirectUrl'')
                  then obj_set (obj_set body ''inviteRedirectUrl'' (obj_get payload ''inviteRedirectUrl''))
                         ''inviteRedirectURL'' (obj_get payload ''inviteRedirectUrl'')
                  else body);
          body = (if is_boolean (obj_get payload ''sendEmail'')
                  then obj_set body ''sendEmail'' (obj_get payload ''sendEmail'') else body);
          body = (if truthy (obj_get payload ''customizedMessageBody'')
                  then obj_set body ''customizedMessageBody'' (obj_get payload ''customizedMessageBody'')
                  else body);
          body = (if is_boolean (obj_get payload ''resetRedemption'')
                  then obj_set body ''resetRedemption'' (obj_get payload ''resetRedemption'') else body)
      in body)"

text \<open>
  The network as \<^verbatim>\<open>sendInvite\<close> sees it. A call is a POST of a JSON body to an
  address; \<^verbatim>\<open>fetch\<close> and \<^verbatim>\<open>res.text()\<close> either deliver a response or throw an
  error with a name (\<^verbatim>\<open>AbortError\<close> when the 12 second timer aborts the call). The
  answer may depend on how many calls were made before. \<^verbatim>\<open>JSON.parse\<close> is the
  platform's parser, a parameter that yields nothing when it throws.
\<close>

record net_request =
  req_url :: string
  req_body :: jsobj

record http_response =
  res_ok :: bool
  res_status :: nat
  res_text :: string

datatype fetch_outcome = Responded http_response | Threw string

record front_env =
  env_URL :: url_parser
  env_JSON_parse :: "string \<Rightarrow> jsval option"
  env_fetch :: "nat \<Rightarrow> net_request \<Rightarrow> fetch_outcome"

record invite_result =
  ok :: bool
  data :: jsval

text \<open>
  \<^verbatim>\<open>sendInvite\<close> in two steps: the result it returns for what \<^verbatim>\<open>fetch\<close> and
  \<^verbatim>\<open>res.text()\<close> delivered (the body of its \<^verbatim>\<open>try\<close> after the call, and its
  \<^verbatim>\<open>catch\<close>), and the call itself, which is added to the calls made so far.
\<close>

definition sendInvite_result :: "front_env \<Rightarrow> fetch_outcome \<Rightarrow> invite_result" where
  "sendInvite_result env outcome =
     (case outcome of
        Threw name \<Rightarrow>
          \<lparr>ok = False,
           data = JObj [(''error'',
             JStr (if name = ''AbortError'' then ''Request timed out. Try again.''
                   else ''Network request failed. Check connection and API URL.''))]\<rparr>
      | Responded res \<Rightarrow>
          (let text = res_text res;
               parsed = (if text \<noteq> [] then
                           (case env_JSON_parse env text of None \<Rightarrow> JNull | Some v \<Rightarrow> v)
                         else JNull);
               payloadSafe = safeResponse parsed
           in if \<not> res_ok res then
                (let fallbackText = (if text \<noteq> [] then JStr (take 280 text) else JNull);
                     d = obj_spread [] (case js_or payloadSafe (JObj []) of JObj kvs \<Rightarrow> kvs | _ \<Rightarrow> []);
                     d = obj_set d ''error''
                           (js_or (js_and payloadSafe (js_get payloadSafe ''error''))
                              (JStr (''Invite failed with HTTP '' @ string_of_nat (res_status res)
                                     @ ''. Check API permissions and payload format.'')));
                     d = obj_spread d
                           (if truthy fallbackText then [(''backendResponse'', fallbackText)] else [])
                 in \<lparr>ok = False, data = JObj d\<rparr>)
              else
                \<lparr>ok = True, data = js_or payloadSafe (JObj [(''message'', JStr ''Invite sent.'')])\<rparr>))"

definition sendInvite ::
  "front_env \<Rightarrow> string \<Rightarrow> jsobj \<Rightarrow> net_request list \<Rightarrow> invite_result \<times> net_request list" where
  "sendInvite env apiUrl payload calls =
     (let request = \<lparr>req_url = apiUrl, req_body = buildInvitePayload payload\<rparr>
      in (sendInvite_result env (env_fetch env (length calls) request), calls @ [request]))"

section \<open>Front end: the bulk parsers\<close>

text \<open>
  \<^verbatim>\<open>EMAIL_REGEX = /^[^\s@]+@[^\s@]+\.[^\s@]+$/\<close>. The first class can only stop at
  the first character that is white space or an at sign, which must be the at sign; what
  follows it must be free of white space and at signs and have a dot that is neither its
  first nor its last character.
\<close>

definition email_char :: "char \<Rightarrow> bool" where
  "email_char c = (\<not> is_space c \<and> c \<noteq> CHR ''@'')"

definition EMAIL_REGEX_test :: "string \<Rightarrow> bool" where
  "EMAIL_REGEX_test s =
     (takeWhile email_char s \<noteq> [] \<and>
      (case dropWhile email_char s of
         [] \<Rightarrow> False
       | c # domain \<Rightarrow>
           c = CHR ''@'' \<and> list_all email_char domain \<and> CHR ''.'' \<in> set (butlast (tl domain))))"

text \<open>
  The address shape in the words of the specification: a local part, an at sign and a
  domain with a dot inside, all without white space.
\<close>

definition email_shape :: "string \<Rightarrow> bool" where
  "email_shape s =
     (\<exists>a b c. s = a @ ''@'' @ b @ ''.'' @ c \<and> a \<noteq> [] \<and> b \<noteq> [] \<and> c \<noteq> []
        \<and> list_all email_char a \<and> list_all email_char b \<and> list_all email_char c)"

text \<open>\<^verbatim>\<open>row[i] || ""\<close> and \<^verbatim>\<open>row[i]\<close> for a row of strings.\<close>

definition cell_text :: "string list \<Rightarrow> nat \<Rightarrow> string" where
  "cell_text row i = (if i < length row then row ! i else [])"

definition cell :: "string list \<Rightarrow> nat \<Rightarrow> string option" where
  "cell row i = (if i < length row then Some (row ! i) else None)"

text \<open>\<^verbatim>\<open>xs.findIndex(p)\<close>, with \<open>None\<close> for the result \<^verbatim>\<open>-1\<close>.\<close>

fun findIndex :: "('a \<Rightarrow> bool) \<Rightarrow> 'a list \<Rightarrow> nat option" where
  "findIndex p [] = None"
| "findIndex p (x # xs) = (if p x then Some 0 else map_option Suc (findIndex p xs))"

text \<open>
  \<^verbatim>\<open>value.replace(/^Example:\s*/i, "")\<close>: a leading \<^verbatim>\<open>Example:\<close> in any letter case
  is removed together with the white space after it.
\<close>

definition strip_example_prefix :: "string \<Rightarrow> string" where
  "strip_example_prefix value =
     (if toLowerCase (take 8 value) = ''example:'' then dropWhile is_space (drop 8 value)
      else value)"

record parse_result =
  entries :: "jsobj list"
  errors :: "string list"

text \<open>
  The \<^verbatim>\<open>forEach\<close> of \<^verbatim>\<open>parseManualBulk\<close> over the non-blank lines, \<open>index\<close>
  counting them from 0. The row parser always returns a first field.
\<close>

fun parseManualBulk_rows :: "jsobj \<Rightarrow> string list \<Rightarrow> nat \<Rightarrow> parse_result \<Rightarrow> parse_result" where
  "parseManualBulk_rows defaults [] index acc = acc"
| "parseManualBulk_rows defaults (line # rest) index acc =
     (let fields = parseCsvLine line;
          emailRaw = cell_text fields 0;
          firstRaw = cell_text fields 1;
          lastRaw = cell_text fields 2;
          email = normalizeEmail emailRaw;
          firstName = sanitizeName firstRaw;
          lastName = sanitizeName lastRaw
      in if \<not> EMAIL_REGEX_test email then
           parseManualBulk_rows defaults rest (index + 1)
             (acc\<lparr>errors := errors acc @ [''Line '' @ string_of_nat (index + 1) @ '': invalid email'']\<rparr>)
         else
           parseManualBulk_rows defaults rest (index + 1)
             (acc\<lparr>entries := entries acc @
                [[(''email'', JStr email),
                  (''firstName'', JStr firstName),
                  (''lastName'', JStr lastName),
                  (''displayName'', JStr (getDisplayName firstName lastName)),
                  (''inviteRedirectUrl'', obj_get defaults ''redirectUrl''),
                  (''sendEmail'', obj_get defaults ''sendEmail''),
                  (''customizedMessageBody'', obj_get defaults ''customizedMessageBody''),
                  (''resetRedemption'', obj_get defaults ''resetRedemption'')]]\<rparr>))"

definition parseManualBulk :: "string \<Rightarrow> jsobj \<Rightarrow> parse_result" where
  "parseManualBulk rawText defaults =
     parseManualBulk_rows defaults (nonblank_lines rawText) 0 \<lparr>entries = [], errors = []\<rparr>"

record template_columns =
  emailIdx :: nat
  redirectIdx :: nat
  sendEmailIdx :: "nat option"
  messageIdx :: "nat option"

text \<open>The \<^verbatim>\<open>for\<close> loop of \<^verbatim>\<open>parseEntraTemplateCsv\<close> over the data rows.\<close>

function parseEntraTemplateCsv_rows ::
  "url_parser \<Rightarrow> jsobj \<Rightarrow> string list \<Rightarrow> template_columns \<Rightarrow> nat \<Rightarrow> parse_result \<Rightarrow> parse_result" where
  "parseEntraTemplateCsv_rows URL_new defaults lines cols i acc =
     (if i < length lines then
        (let row = parseCsvLine (lines ! i);
             rawEmail = strip_example_prefix (cell_text row (emailIdx cols))
         in if rawEmail = [] \<or> startsWith rawEmail ''Example:'' then
              parseEntraTemplateCsv_rows URL_new defaults lines cols (i + 1) acc
            else
              (let email = normalizeEmail rawEmail;
                   redirect = trim (cell_text row (redirectIdx cols))
               in if \<not> EMAIL_REGEX_test email then
                    parseEntraTemplateCsv_rows URL_new defaults lines cols (i + 1)
                      (acc\<lparr>errors := errors acc @
                         [''Line '' @ string_of_nat (i + 1) @ '': invalid inviteeEmail'']\<rparr>)
                  else if \<not> isValidHttpUrl URL_new redirect then
                    parseEntraTemplateCsv_rows URL_new defaults lines cols (i + 1)
                      (acc\<lparr>errors := errors acc @
                         [''Line '' @ string_of_nat (i + 1) @ '': invalid inviteRedirectURL'']\<rparr>)
                  else
                    parseEntraTemplateCsv_rows URL_new defaults lines cols (i + 1)
                      (acc\<lparr>entries := entries acc @
                         [[(''email'', JStr email),
                           (''firstName'', JStr ''''),
                           (''lastName'', JStr ''''),
                           (''displayName'', JStr ''''),
                           (''inviteRedirectUrl'', JStr redirect),
                           (''sendEmail'',
                            JBool (parseBoolean
                              (case sendEmailIdx cols of
                                 Some j \<Rightarrow> CellValue (cell row j)
                               | None \<Rightarrow> BoolValue True) True)),
                           (''customizedMessageBody'',
                            JStr (case messageIdx cols of
                                    Some j \<Rightarrow> trim (cell_text row j) | None \<Rightarrow> '''')),
                           (''resetRedemption'', obj_get defaults ''resetRedemption'')]]\<rparr>)))
      else acc)"
  by pat_completeness auto
termination
  by (relation "measure (\<lambda>(URL_new, defaults, lines, cols, i, acc). length lines - i)") auto

declare parseEntraTemplateCsv_rows.simps [simp del]

text \<open>
  In \<^verbatim>\<open>parseEntraTemplateCsv\<close> the text first loses a leading byte order mark
  (U+FEFF); no text of the modelled range starts with one, so \<open>normalized\<close> is the text.
\<close>

definition parseEntraTemplateCsv :: "url_parser \<Rightarrow> string \<Rightarrow> jsobj \<Rightarrow> parse_result" where
  "parseEntraTemplateCsv URL_new rawText defaults =
     (let normalized = rawText;
          lines = nonblank_lines normalized
      in if length lines < 2 then
           \<lparr>entries = [], errors = [''CSV is invalid. Expected version row and header row.'']\<rparr>
         else
           (let headers = parseCsvLine (lines ! 1) in
            case (findIndex (\<lambda>h. str_includes h ''[inviteeEmail]'') headers,
                  findIndex (\<lambda>h. str_includes h ''[inviteRedirectURL]'') headers) of
              (Some e, Some r) \<Rightarrow>
                parseEntraTemplateCsv_rows URL_new defaults lines
                  \<lparr>emailIdx = e, redirectIdx = r,
                   sendEmailIdx = findIndex (\<lambda>h. str_includes h ''[sendEmail]'') headers,
                   messageIdx = findIndex (\<lambda>h. str_includes h ''[customizedMessageBody]'') headers\<rparr>
                  2 \<lparr>entries = [], errors = []\<rparr>
            | _ \<Rightarrow>
                \<lparr>entries = [],
                 errors = [''CSV missing required columns: [inviteeEmail] and/or [inviteRedirectURL].'']\<rparr>))"

section \<open>Front end: the submit handler\<close>

text \<open>
  The state of the form, as held by the component's state hooks. The handler reads the
  state of the render it was created in and queues its updates; the model returns the
  state after all of them, together with the outbound calls made so far.
\<close>

record app_state =
  st_mode :: string
  st_email :: string
  st_firstName :: string
  st_lastName :: string
  st_redirectUrl :: string
  st_sendEmailFlag :: bool
  st_resetRedemptionFlag :: bool
  st_customizedMessageBody :: string
  st_bulkInput :: string
  st_bulkEntriesFromFile :: "jsobj list"
  st_bulkFileName :: string
  st_loading :: bool
  st_result :: "invite_result option"

definition fail_with :: "string \<Rightarrow> invite_result" where
  "fail_with msg = \<lparr>ok = False, data = JObj [(''error'', JStr msg)]\<rparr>"

text \<open>
  The loop \<^verbatim>\<open>for (const entry of entries)\<close> of the bulk path: one awaited call for
  each entry, a failure record for each response that is not ok.
\<close>

fun submit_entries ::
  "front_env \<Rightarrow> jsobj list \<Rightarrow> jsval list \<Rightarrow> net_request list \<Rightarrow> jsval list \<times> net_request list" where
  "submit_entries env [] failures calls = (failures, calls)"
| "submit_entries env (entry # rest) failures calls =
     (case sendInvite env API_URL entry calls of
        (response, calls') \<Rightarrow>
          submit_entries env rest
            (if \<not> ok response
             then failures @
                    [JObj [(''email'', obj_get entry ''email''),
                           (''error'', js_or (js_get (data response) ''error'') (JStr ''Invite failed''))]]
             else failures)
            calls')"

definition inviteGuest_single :: "front_env \<Rightarrow> app_state \<Rightarrow> net_request list \<Rightarrow> app_state \<times> net_request list" where
  "inviteGuest_single env s calls =
     (let normalizedEmail = normalizeEmail (st_email s);
          normalizedFirstName = sanitizeName (st_firstName s);
          normalizedLastName = sanitizeName (st_lastName s);
          normalizedRedirect = trim (st_redirectUrl s)
      in if \<not> EMAIL_REGEX_test normalizedEmail then
           (s\<lparr>st_loading := False, st_result := Some (fail_with ''Please enter a valid guest email.'')\<rparr>,
            calls)
         else if \<not> isValidHttpUrl (env_URL env) normalizedRedirect then
           (s\<lparr>st_loading := False, st_result := Some (fail_with ''Please enter a valid redirect URL.'')\<rparr>,
            calls)
         else
           (case sendInvite env API_URL
                   [(''email'', JStr normalizedEmail),
                    (''firstName'', JStr normalizedFirstName),
                    (''lastName'', JStr normalizedLastName),
                    (''displayName'', JStr (getDisplayName normalizedFirstName normalizedLastName)),
                    (''inviteRedirectUrl'', JStr normalizedRedirect),
                    (''sendEmail'', JBool (st_sendEmailFlag s)),
                    (''customizedMessageBody'', JStr (trim (st_customizedMessageBody s))),
                    (''resetRedemption'', JBool (st_resetRedemptionFlag s))]
                   calls of
              (response, calls') \<Rightarrow>
                ((if ok response
                  then s\<lparr>st_email := [], st_firstName := [], st_lastName := []\<rparr>
                  else s)\<lparr>st_loading := False, st_result := Some response\<rparr>,
                 calls')))"

definition inviteGuest_submit ::
  "front_env \<Rightarrow> app_state \<Rightarrow> jsobj list \<Rightarrow> string list \<Rightarrow> net_request list \<Rightarrow> app_state \<times> net_request list" where
  "inviteGuest_submit env s es validationErrors calls =
     (if es = [] then
        (s\<lparr>st_loading := False,
           st_result := Some (fail_with ''No valid rows found. Upload Entra CSV or add manual rows.'')\<rparr>,
         calls)
      else if length es > MAX_BULK_INVITES then
        (s\<lparr>st_loading := False,
           st_result := Some (fail_with
             (''Bulk invite limit is '' @ string_of_nat MAX_BULK_INVITES @ '' rows per submission.''))\<rparr>,
         calls)
      else
        (case submit_entries env es [] calls of
           (failures, calls') \<Rightarrow>
             (let summary = JObj
                    [(''source'',
                      JStr (if length (st_bulkEntriesFromFile s) > 0
                            then ''file:'' @ st_bulkFileName s else ''manual'')),
                     (''totalRows'', JNum (of_nat (length es) + of_nat (length validationErrors))),
                     (''validRows'', JNum (of_nat (length es))),
                     (''invalidRows'', JArr (map JStr validationErrors)),
                     (''invited'', JNum (of_nat (length es) - of_nat (length failures))),
                     (''failed'', JNum (of_nat (length failures))),
                     (''failures'', JArr failures)];
                  done = (failures = [] \<and> validationErrors = [])
              in ((if done
                   then s\<lparr>st_bulkInput := [], st_bulkEntriesFromFile := [], st_bulkFileName := []\<rparr>
                   else s)\<lparr>st_loading := False, st_result := Some \<lparr>ok = done, data = summary\<rparr>\<rparr>,
                  calls'))))"

text \<open>
  The bulk path up to the submission: the entries of the uploaded file, each with
  \<^verbatim>\<open>resetRedemption\<close> overwritten by the current flag, or else the rows typed by hand
  with their validation errors. There is nothing to submit when the rows typed by hand
  come with a redirect address that is not accepted.
\<close>

definition bulk_entries :: "front_env \<Rightarrow> app_state \<Rightarrow> (jsobj list \<times> string list) option" where
  "bulk_entries env s =
     (if length (st_bulkEntriesFromFile s) > 0 then
        Some (map (\<lambda>entry. obj_set (obj_spread [] entry) ''resetRedemption''
                              (JBool (st_resetRedemptionFlag s)))
                  (st_bulkEntriesFromFile s),
              [])
      else if \<not> isValidHttpUrl (env_URL env) (trim (st_redirectUrl s)) then None
      else
        (let parsed = parseManualBulk (st_bulkInput s)
               [(''redirectUrl'', JStr (trim (st_redirectUrl s))),
                (''sendEmail'', JBool (st_sendEmailFlag s)),
                (''customizedMessageBody'', JStr (trim (st_customizedMessageBody s))),
                (''resetRedemption'', JBool (st_resetRedemptionFlag s))]
         in Some (entries parsed, errors parsed)))"

definition inviteGuest_bulk :: "front_env \<Rightarrow> app_state \<Rightarrow> net_request list \<Rightarrow> app_state \<times> net_request list" where
  "inviteGuest_bulk env s calls =
     (case bulk_entries env s of
        None \<Rightarrow>
          (s\<lparr>st_loading := False,
             st_result := Some (fail_with ''Please enter a valid redirect URL for bulk invites.'')\<rparr>,
           calls)
      | Some (es, validationErrors) \<Rightarrow> inviteGuest_submit env s es validationErrors calls)"

definition inviteGuest :: "front_env \<Rightarrow> app_state \<Rightarrow> net_request list \<Rightarrow> app_state \<times> net_request list" where
  "inviteGuest env s calls =
     (if \<not> isValidHttpUrl (env_URL env) API_URL then
        (s\<lparr>st_result := Some (fail_with ''Enter a valid API URL to continue.'')\<rparr>, calls)
      else if st_mode s = ''single'' then inviteGuest_single env s calls
      else inviteGuest_bulk env s calls)"

section \<open>Back end: configuration, collaborators and the directory call\<close>

text \<open>
  The constants that \<^verbatim>\<open>inviteGuest.js\<close> computes from the process environment when
  it is loaded.
\<close>

record backend_config =
  IS_AZURE_RUNTIME :: bool
  ALLOW_LOCAL_ANONYMOUS_INVITE :: bool
  ALLOWED_INVITER_GROUP_OBJECT_IDS :: "string list"
  ENFORCE_GROUP_MEMBERSHIP_IN_AZURE :: bool
  GUEST_SOURCE_VALUE :: string
  AZURE_CLIENT_ID :: string

definition GRAPH_BASE :: string where
  "GRAPH_BASE = ''https://graph.microsoft.com/v1.0''"

definition EXT_FIELD :: string where
  "EXT_FIELD = ''extension_9722db236acf4a89b1c3463d9a982b12_guestSource''"

text \<open>
  A thrown error, with the properties the handler's \<^verbatim>\<open>catch\<close> reads
  (\<^verbatim>\<open>undefined\<close> when the error has none).
\<close>

record js_error =
  err_status :: jsval
  err_message :: jsval
  err_details :: jsval
  err_requestId :: jsval
  err_clientRequestId :: jsval
  err_wwwAuthenticate :: jsval

definition TypeError :: "string \<Rightarrow> js_error" where
  "TypeError msg =
     \<lparr>err_status = JUndefined, err_message = JStr msg, err_details = JUndefined,
      err_requestId = JUndefined, err_clientRequestId = JUndefined,
      err_wwwAuthenticate = JUndefined\<rparr>"

text \<open>
  The conversion of a value to a string, as a template literal and
  \<^verbatim>\<open>Array.prototype.join\<close> apply it; \<open>None\<close> stands for the TypeError it can throw.
  A number of the model is printed in decimal. An array is its elements joined by
  commas, with nothing for \<^verbatim>\<open>null\<close> and \<^verbatim>\<open>undefined\<close>. An object is
  \<^verbatim>\<open>[object Object]\<close>, unless it has a property \<^verbatim>\<open>toString\<close> of its own: the value
  of that property is not a function, \<^verbatim>\<open>valueOf\<close> does not give a primitive either,
  and the conversion throws.
\<close>

definition number_text :: "54 word \<Rightarrow> string" where
  "number_text n =
     (if sint n < 0 then ''-'' @ string_of_nat (nat (- sint n)) else string_of_nat (nat (sint n)))"

fun js_ToString :: "jsval \<Rightarrow> string option"
  and js_join :: "string \<Rightarrow> jsval list \<Rightarrow> string option" where
  "js_ToString JUndefined = Some ''undefined''"
| "js_ToString JNull = Some ''null''"
| "js_ToString (JBool b) = Some (if b then ''true'' else ''false'')"
| "js_ToString (JNum n) = Some (number_text n)"
| "js_ToString (JStr s) = Some s"
| "js_ToString (JArr xs) = js_join '','' xs"
| "js_ToString (JObj kvs) =
     (if ''toString'' \<in> set (map fst kvs) then None else Some ''[object Object]'')"
| "js_join sep [] = Some []"
| "js_join sep (x # xs) =
     (case (if x = JNull \<or> x = JUndefined then Some [] else js_ToString x) of
        None \<Rightarrow> None
      | Some s \<Rightarrow>
          if xs = [] then Some s
          else (case js_join sep xs of None \<Rightarrow> None | Some r \<Rightarrow> Some (s @ sep @ r)))"

definition cannot_convert :: js_error where
  "cannot_convert = TypeError ''Cannot convert object to primitive value''"

text \<open>
  A call to the directory service as \<^verbatim>\<open>graphRequest\<close> makes it (the token is
  the access token, a string of the credential's library, or \<^verbatim>\<open>undefined\<close>), and
  what \<^verbatim>\<open>fetch\<close> delivers: a response with the three headers the code reads, or an
  error.
\<close>

record graph_call =
  gc_method :: string
  gc_url :: string
  gc_token :: "string option"
  gc_body :: jsval

record graph_response =
  gr_ok :: bool
  gr_status :: "54 word"
  gr_statusText :: string
  gr_text :: string
  gr_wwwAuthenticate :: "string option"
  gr_requestId :: "string option"
  gr_clientRequestId :: "string option"

datatype event = GetToken | GraphFetch graph_call

text \<open>
  The collaborators of the back end: the JSON parser, the decoding of base64 text into
  a JSON value (nothing when either step throws), the token request of the credential
  (an error, or the \<^verbatim>\<open>token\<close> string of the access token it returns, if any), and
  the directory service, whose answer may depend on the number of earlier events.
\<close>

record back_env =
  be_JSON_parse :: "string \<Rightarrow> jsval option"
  be_base64_json :: "string \<Rightarrow> jsval option"
  be_getToken :: "js_error + string option"
  be_fetch :: "nat \<Rightarrow> graph_call \<Rightarrow> js_error + graph_response"

text \<open>
  An inbound request: the value \<^verbatim>\<open>request.json()\<close> resolves to (nothing when it
  rejects) and the header \<^verbatim>\<open>x-ms-client-principal\<close>.
\<close>

record http_request =
  rq_json :: "jsval option"
  rq_client_principal :: "string option"

record http_result =
  status :: jsval
  jsonBody :: jsval

definition tryParseJson :: "back_env \<Rightarrow> string \<Rightarrow> jsval" where
  "tryParseJson env text =
     (if text = [] then JNull
      else case be_JSON_parse env text of Some v \<Rightarrow> v | None \<Rightarrow> JStr text)"

definition header_value :: "string option \<Rightarrow> jsval" where
  "header_value h = (case h of None \<Rightarrow> JNull | Some v \<Rightarrow> js_or (JStr v) JNull)"

definition graphRequest :: "back_env \<Rightarrow> graph_call \<Rightarrow> event list \<Rightarrow> (js_error + jsval) \<times> event list" where
  "graphRequest env call trace =
     (case be_fetch env (length trace) call of
        Inl e \<Rightarrow> (Inl e, trace @ [GraphFetch call])
      | Inr res \<Rightarrow>
          (let json = tryParseJson env (gr_text res)
           in if \<not> gr_ok res then
                (Inl \<lparr>err_status = JNum (gr_status res),
                      err_message = JStr (''Graph call failed: '' @ number_text (gr_status res)
                                          @ '' '' @ gr_statusText res),
                      err_details = json,
                      err_requestId = header_value (gr_requestId res),
                      err_clientRequestId = header_value (gr_clientRequestId res),
                      err_wwwAuthenticate = header_value (gr_wwwAuthenticate res)\<rparr>,
                 trace @ [GraphFetch call])
              else (Inr json, trace @ [GraphFetch call])))"

section \<open>Back end: authorizeInviter\<close>

definition decodeClientPrincipal :: "back_env \<Rightarrow> http_request \<Rightarrow> jsval" where
  "decodeClientPrincipal env request =
     (case header_value (rq_client_principal request) of
        JStr raw \<Rightarrow> (case be_base64_json env raw of None \<Rightarrow> JNull | Some v \<Rightarrow> v)
      | _ \<Rightarrow> JNull)"

definition getClaimValue :: "jsval \<Rightarrow> string \<Rightarrow> jsval" where
  "getClaimValue clientPrincipal claimName =
     (let claims = (case js_get clientPrincipal ''claims'' of JArr cs \<Rightarrow> cs | _ \<Rightarrow> [])
      in case find (\<lambda>c. js_get c ''typ'' = JStr claimName) claims of
           None \<Rightarrow> JNull
         | Some match \<Rightarrow> js_or (js_get match ''val'') JNull)"

definition getCallerObjectId :: "jsval \<Rightarrow> jsval" where
  "getCallerObjectId clientPrincipal =
     js_or (getClaimValue clientPrincipal ''http://schemas.microsoft.com/identity/claims/objectidentifier'')
       (js_or (getClaimValue clientPrincipal ''oid'')
          (js_or (js_get clientPrincipal ''userId'') JNull))"

datatype auth_decision =
    Authorized string jsval
  | Denied "54 word" string

text \<open>
  \<^verbatim>\<open>authorizeInviter\<close> in two parts: the checks on the fetched profile \<open>caller\<close>
  (from \<^verbatim>\<open>if (!caller?.id || ...)\<close> to the end of the function), and the function
  itself up to the fetch of that profile. Each of the two addresses is a template
  literal over \<^verbatim>\<open>callerOid\<close>, whose conversion to a string can throw; the error
  leaves the function before the call is made.
\<close>

definition authorize_caller ::
  "backend_config \<Rightarrow> back_env \<Rightarrow> string option \<Rightarrow> jsval \<Rightarrow> jsval \<Rightarrow> event list
     \<Rightarrow> (js_error + auth_decision) \<times> event list" where
  "authorize_caller cfg env graphToken callerOid caller trace =
     (if \<not> truthy (js_get caller ''id'') \<or> js_get caller ''accountEnabled'' = JBool False then
        (Inr (Denied 403 ''Forbidden. Caller account is not active.''), trace)
      else if js_get caller ''userType'' \<noteq> JStr ''Member'' then
        (Inr (Denied 403 ''Forbidden. Only tenant Member users can send invites.''), trace)
      else if IS_AZURE_RUNTIME cfg \<and> ENFORCE_GROUP_MEMBERSHIP_IN_AZURE cfg
              \<and> length (ALLOWED_INVITER_GROUP_OBJECT_IDS cfg) = 0 then
        (Inr (Denied 500
           ''Server misconfiguration. ALLOWED_INVITER_GROUP_OBJECT_IDS must be set in Azure.''),
         trace)
      else
        let shouldCheckGroupMembership =
              (length (ALLOWED_INVITER_GROUP_OBJECT_IDS cfg) > 0
               \<and> (\<not> IS_AZURE_RUNTIME cfg \<or> ENFORCE_GROUP_MEMBERSHIP_IN_AZURE cfg))
        in if shouldCheckGroupMembership then
             (case js_ToString callerOid of
                None \<Rightarrow> (Inl cannot_convert, trace)
              | Some oidText \<Rightarrow>
                  (case graphRequest env
                          \<lparr>gc_method = ''POST'',
                           gc_url = GRAPH_BASE @ ''/users/'' @ oidText @ ''/checkMemberGroups'',
                           gc_token = graphToken,
                           gc_body = JObj [(''groupIds'',
                              JArr (map JStr (ALLOWED_INVITER_GROUP_OBJECT_IDS cfg)))]\<rparr>
                          trace of
                     (Inl e, trace2) \<Rightarrow> (Inl e, trace2)
                   | (Inr membership, trace2) \<Rightarrow>
                       (let matched = (case js_get membership ''value'' of
                                         JArr vs \<Rightarrow> vs | _ \<Rightarrow> [])
                        in if length matched = 0 then
                             (Inr (Denied 403
                                ''Forbidden. Caller is not in the allowed inviter group.''),
                              trace2)
                           else (Inr (Authorized ''entra_authenticated'' caller), trace2))))
           else (Inr (Authorized ''entra_authenticated'' caller), trace))"

definition authorizeInviter ::
  "backend_config \<Rightarrow> back_env \<Rightarrow> http_request \<Rightarrow> string option \<Rightarrow> event list
     \<Rightarrow> (js_error + auth_decision) \<times> event list" where
  "authorizeInviter cfg env request graphToken trace =
     (if \<not> IS_AZURE_RUNTIME cfg \<and> ALLOW_LOCAL_ANONYMOUS_INVITE cfg then
        (Inr (Authorized ''local_bypass''
                (JObj [(''userType'', JStr ''Member''), (''id'', JStr ''local-dev'')])),
         trace)
      else
        let clientPrincipal = decodeClientPrincipal env request in
        if \<not> truthy clientPrincipal then
          (Inr (Denied 401
             ''Unauthorized. Enable App Service Authentication and call this API as a signed-in internal user.''),
           trace)
        else
          let callerOid = getCallerObjectId clientPrincipal in
          if \<not> truthy callerOid then
            (Inr (Denied 401 ''Unauthorized. Caller object ID claim is missing.''), trace)
          else
            case js_ToString callerOid of
              None \<Rightarrow> (Inl cannot_convert, trace)
            | Some oidText \<Rightarrow>
                (case graphRequest env
                        \<lparr>gc_method = ''GET'',
                         gc_url = GRAPH_BASE @ ''/users/'' @ oidText
                                  @ ''?$select=id,displayName,userPrincipalName,userType,accountEnabled'',
                         gc_token = graphToken, gc_body = JUndefined\<rparr>
                        trace of
                   (Inl e, trace1) \<Rightarrow> (Inl e, trace1)
                 | (Inr caller, trace1) \<Rightarrow>
                     authorize_caller cfg env graphToken callerOid caller trace1))"

section \<open>Back end: the inviteGuest handler\<close>

record runtime_info =
  rt_mode :: string
  rt_azClientIdConfigured :: bool

text \<open>
  \<^verbatim>\<open>getRuntimeCredential\<close> without the credential object, whose only use is the
  token request \<^const>\<open>be_getToken\<close>.
\<close>

definition getRuntimeCredential :: "backend_config \<Rightarrow> runtime_info" where
  "getRuntimeCredential cfg =
     (let configuredClientId = trim (AZURE_CLIENT_ID cfg)
      in if IS_AZURE_RUNTIME cfg then
           (if configuredClientId \<noteq> [] then
              \<lparr>rt_mode = ''managed_identity_user_assigned'', rt_azClientIdConfigured = True\<rparr>
            else
              \<lparr>rt_mode = ''managed_identity_system_assigned'', rt_azClientIdConfigured = False\<rparr>)
         else
           \<lparr>rt_mode = ''local_default_credential'',
            rt_azClientIdConfigured = (configuredClientId \<noteq> [])\<rparr>)"

definition getGraphAccessToken ::
  "backend_config \<Rightarrow> back_env \<Rightarrow> event list
     \<Rightarrow> (js_error + string option \<times> runtime_info) \<times> event list" where
  "getGraphAccessToken cfg env trace =
     (let runtime = getRuntimeCredential cfg
      in case be_getToken env of
           Inl e \<Rightarrow> (Inl e, trace @ [GetToken])
         | Inr token \<Rightarrow> (Inr (token, runtime), trace @ [GetToken]))"

text \<open>\<^verbatim>\<open>s.split(".")\<close>, and \<^verbatim>\<open>decodeJwtClaims\<close> on top of the base64 decoder.\<close>

fun split_dots :: "string \<Rightarrow> string \<Rightarrow> string list" where
  "split_dots cur [] = [cur]"
| "split_dots cur (c # cs) =
     (if c = CHR ''.'' then cur # split_dots [] cs else split_dots (cur @ [c]) cs)"

definition decodeJwtClaims :: "back_env \<Rightarrow> string option \<Rightarrow> jsval" where
  "decodeJwtClaims env token =
     (case token of
        None \<Rightarrow> JNull
      | Some t \<Rightarrow>
        if t = [] then JNull
        else
        let parts = split_dots [] t
        in if length parts < 2 then JNull
           else
             let normalized = map (\<lambda>c. if c = CHR ''-'' then CHR ''+''
                                         else if c = CHR ''_'' then CHR ''/'' else c) (parts ! 1);
                 padded = normalized
                          @ replicate (((length normalized + 3) div 4) * 4 - length normalized) CHR ''=''
             in case be_base64_json env padded of None \<Rightarrow> JNull | Some v \<Rightarrow> v)"

text \<open>The answer of the handler's \<^verbatim>\<open>catch\<close>, which reads the variable \<^verbatim>\<open>runtime\<close>.\<close>

definition runtime_mode :: "runtime_info option \<Rightarrow> jsval" where
  "runtime_mode runtime =
     (case runtime of None \<Rightarrow> JNull | Some r \<Rightarrow> js_or (JStr (rt_mode r)) JNull)"

definition runtime_configured :: "runtime_info option \<Rightarrow> jsval" where
  "runtime_configured runtime =
     (case runtime of None \<Rightarrow> JBool False
      | Some r \<Rightarrow> js_or (JBool (rt_azClientIdConfigured r)) (JBool False))"

definition catch_result :: "runtime_info option \<Rightarrow> js_error \<Rightarrow> http_result" where
  "catch_result runtime e =
     \<lparr>status = js_or (err_status e) (JNum 500),
      jsonBody = JObj
        [(''error'', js_or (err_message e) (JStr ''Unknown error'')),
         (''details'', js_or (err_details e) JNull),
         (''requestId'', js_or (err_requestId e) JNull),
         (''clientRequestId'', js_or (err_clientRequestId e) JNull),
         (''wwwAuthenticate'', js_or (err_wwwAuthenticate e) JNull),
         (''runtime'', runtime_mode runtime),
         (''azClientIdConfigured'', runtime_configured runtime)]\<rparr>"

text \<open>
  The display name, computed before the test of \<^verbatim>\<open>email\<close>:
  \<^verbatim>\<open>body.displayName || [body.firstName, body.lastName].filter(Boolean).join(" ").trim() || email\<close>.
  The names are joined only when \<^verbatim>\<open>body.displayName\<close> is falsy, and joining them
  converts each to a string, which can throw (\<open>None\<close>).
\<close>

definition request_displayName :: "jsval \<Rightarrow> jsval option" where
  "request_displayName body =
     (if truthy (js_get body ''displayName'') then Some (js_get body ''displayName'')
      else case js_join '' '' (filter truthy [js_get body ''firstName'', js_get body ''lastName'']) of
             None \<Rightarrow> None
           | Some joined \<Rightarrow> Some (js_or (JStr (trim joined)) (js_get body ''email'')))"

text \<open>
  The body of the invitation, built from the request body and the display name. The
  other values read from the request body cannot throw.
\<close>

definition invitationBody :: "jsval \<Rightarrow> jsval \<Rightarrow> jsval" where
  "invitationBody body displayName =
     (let email = js_get body ''email'';
          redirectUrl =
            js_or (js_get body ''redirectUrl'')
              (js_or (js_get body ''inviteRedirectUrl'')
                 (js_or (js_get body ''inviteRedirectURL'') (JStr ''https://myapps.microsoft.com'')));
          sendInvitationMessage =
            (if is_boolean (js_get body ''sendEmail'') then js_get body ''sendEmail'' else JBool True);
          customizedMessageBody =
            (case js_get body ''customizedMessageBody'' of
               JStr m \<Rightarrow> JStr (trim m) | _ \<Rightarrow> JStr '''');
          messageLanguage =
            (case js_get body ''messageLanguage'' of
               JStr l \<Rightarrow> if trim l \<noteq> [] then JStr (trim l) else JStr ''en-US''
             | _ \<Rightarrow> JStr ''en-US'');
          resetRedemption =
            (if is_boolean (js_get body ''resetRedemption'') then js_get body ''resetRedemption''
             else JBool False);
          b = [(''invitedUserEmailAddress'', email),
               (''invitedUserDisplayName'', displayName),
               (''inviteRedirectUrl'', redirectUrl),
               (''sendInvitationMessage'', sendInvitationMessage)];
          b = (if truthy sendInvitationMessage then
                 obj_set b ''invitedUserMessageInfo''
                   (JObj (obj_spread [(''messageLanguage'', messageLanguage)]
                      (if truthy customizedMessageBody
                       then [(''customizedMessageBody'', customizedMessageBody)] else [])))
               else b);
          b = (if truthy resetRedemption then obj_set b ''resetRedemption'' (JBool True) else b)
      in JObj b)"

definition tokenContext :: "jsval \<Rightarrow> jsval" where
  "tokenContext claims =
     (if truthy claims then
        JObj [(''aud'', js_get claims ''aud''), (''tid'', js_get claims ''tid''),
              (''appid'', js_get claims ''appid''), (''oid'', js_get claims ''oid''),
              (''roles'', js_or (js_get claims ''roles'') (JArr []))]
      else JNull)"

text \<open>
  The handler. Every error thrown inside \<^verbatim>\<open>try\<close> ends in \<^verbatim>\<open>catch\<close>. Two errors
  can be thrown before the test of \<^verbatim>\<open>email\<close>: reading \<^verbatim>\<open>body.email\<close> throws a
  TypeError when the body is \<^verbatim>\<open>null\<close>, and so does the display name when a name
  cannot be converted to a string. Later, the address of the PATCH is a template literal
  over \<^verbatim>\<open>invitedUserId\<close>, whose conversion can throw before that call is made. The
  second component lists the token request and the directory calls that were made, in
  order. The log line written by \<^verbatim>\<open>context.error\<close> is not part of the answer and is
  left out.
\<close>

definition inviteGuest_handler :: "backend_config \<Rightarrow> back_env \<Rightarrow> http_request \<Rightarrow> http_result \<times> event list" where
  "inviteGuest_handler cfg env request =
     (let body = (case rq_json request of None \<Rightarrow> JObj [] | Some v \<Rightarrow> v)
      in if body = JNull \<or> body = JUndefined then
           (catch_result None
              (TypeError (''Cannot read properties of ''
                          @ (if body = JNull then ''null'' else ''undefined'')
                          @ '' (reading '' @ [CHR 0x27] @ ''email'' @ [CHR 0x27] @ '')'')),
            [])
         else
           let email = js_get body ''email''
           in case request_displayName body of
                None \<Rightarrow> (catch_result None cannot_convert, [])
              | Some displayName \<Rightarrow>
                if \<not> truthy email then
                  (\<lparr>status = JNum 400, jsonBody = JObj [(''error'', JStr ''email is required'')]\<rparr>, [])
                else
                  case getGraphAccessToken cfg env [] of
                    (Inl e, trace0) \<Rightarrow> (catch_result None e, trace0)
                  | (Inr (accessToken, runtime), trace0) \<Rightarrow>
                      let claims = decodeJwtClaims env accessToken
                      in case authorizeInviter cfg env request accessToken trace0 of
                           (Inl e, trace1) \<Rightarrow> (catch_result (Some runtime) e, trace1)
                         | (Inr (Denied st msg), trace1) \<Rightarrow>
                             (\<lparr>status = JNum st,
                               jsonBody = JObj
                                 [(''error'', JStr msg),
                                  (''runtime'', runtime_mode (Some runtime)),
                                  (''azClientIdConfigured'', runtime_configured (Some runtime))]\<rparr>,
                              trace1)
                         | (Inr (Authorized authMode caller), trace1) \<Rightarrow>
                             (case graphRequest env
                                     \<lparr>gc_method = ''POST'', gc_url = GRAPH_BASE @ ''/invitations'',
                                      gc_token = accessToken,
                                      gc_body = invitationBody body displayName\<rparr>
                                     trace1 of
                                (Inl e, trace2) \<Rightarrow> (catch_result (Some runtime) e, trace2)
                              | (Inr invitation, trace2) \<Rightarrow>
                                  let invitedUserId = js_get (js_get invitation ''invitedUser'') ''id''
                                  in if \<not> truthy invitedUserId then
                                       (\<lparr>status = JNum 500,
                                         jsonBody = JObj
                                           [(''error'',
                                             JStr ''Invite succeeded but invitedUser.id not returned''),
                                            (''invitation'', invitation)]\<rparr>,
                                        trace2)
                                     else
                                       (case js_ToString invitedUserId of
                                          None \<Rightarrow> (catch_result (Some runtime) cannot_convert, trace2)
                                        | Some idText \<Rightarrow>
                                       (case graphRequest env
                                               \<lparr>gc_method = ''PATCH'',
                                                gc_url = GRAPH_BASE @ ''/users/'' @ idText,
                                                gc_token = accessToken,
                                                gc_body = JObj [(EXT_FIELD, JStr (GUEST_SOURCE_VALUE cfg))]\<rparr>
                                               trace2 of
                                          (Inl e, trace3) \<Rightarrow> (catch_result (Some runtime) e, trace3)
                                        | (Inr stamped, trace3) \<Rightarrow>
                                            (\<lparr>status = JNum 200,
                                              jsonBody = JObj
                                                [(''status'', JStr ''invited_and_stamped''),
                                                 (''invitedUserId'', invitedUserId),
                                                 (''email'', email),
                                                 (''guestSource'', JStr (GUEST_SOURCE_VALUE cfg)),
                                                 (''inviteRedeemUrl'',
                                                  js_or (js_get invitation ''inviteRedeemUrl'') JNull),
                                                 (''inviterAuthorizationMode'', JStr authMode),
                                                 (''inviter'', JObj
                                                    [(''id'', js_or (js_get caller ''id'') JNull),
                                                     (''userType'', js_or (js_get caller ''userType'') JNull),
                                                     (''userPrincipalName'',
                                                      js_or (js_get caller ''userPrincipalName'') JNull)]),
                                                 (''runtime'', runtime_mode (Some runtime)),
                                                 (''azClientIdConfigured'',
                                                  runtime_configured (Some runtime)),
                                                 (''tokenContext'', tokenContext claims)]\<rparr>,
                                             trace3)))))"

section \<open>The whitelist of response fields, and sample collaborators\<close>

text \<open>
  The safe subset of a backend answer in the words of the specification: of the fields
  \<^verbatim>\<open>message\<close>, \<^verbatim>\<open>status\<close>, \<^verbatim>\<open>code\<close>, \<^verbatim>\<open>error\<close> and \<^verbatim>\<open>detail\<close>, those
  that hold a string.
\<close>

definition safe_fields :: "jsval \<Rightarrow> jsobj" where
  "safe_fields p =
     concat (map (\<lambda>k. if is_string (js_get p k) then [(k, js_get p k)] else [])
                 [''message'', ''status'', ''code'', ''error'', ''detail''])"

text \<open>
  Collaborators for the concrete runs below. The address parser knows the two addresses
  of the source, parsed as the platform parses them. The JSON parser knows one error
  body. The network answers the first call with 200 and an empty body, the second with
  403 and the error body, aborts the third and answers 200 from then on.
\<close>

definition sample_URL :: url_parser where
  "sample_URL value =
     (if value = API_URL then
        Some \<lparr>protocol = ''https:'',
              hostname = ''guestinvitemobsa-a3g2dxbdaqfuazap.australiasoutheast-01.azurewebsites.net''\<rparr>
      else if value = ''https://myapplications.microsoft.com'' then
        Some \<lparr>protocol = ''https:'', hostname = ''myapplications.microsoft.com''\<rparr>
      else None)"

definition sample_JSON_parse :: "string \<Rightarrow> jsval option" where
  \<open>sample_JSON_parse text =
     (if text = ''{"error":"denied","traceId":"t-1"}''
      then Some (JObj [(''error'', JStr ''denied''), (''traceId'', JStr ''t-1'')])
      else None)\<close>

definition sample_fetch :: "nat \<Rightarrow> net_request \<Rightarrow> fetch_outcome" where
  \<open>sample_fetch n request =
     (if n = 1 then
        Responded \<lparr>res_ok = False, res_status = 403,
                   res_text = ''{"error":"denied","traceId":"t-1"}''\<rparr>
      else if n = 2 then Threw ''AbortError''
      else Responded \<lparr>res_ok = True, res_status = 200, res_text = ''''\<rparr>)\<close>

definition sample_env :: front_env where
  "sample_env =
     \<lparr>env_URL = sample_URL, env_JSON_parse = sample_JSON_parse, env_fetch = sample_fetch\<rparr>"

text \<open>
  A form in bulk mode with five rows typed by hand, the second of which is not an
  address.
\<close>

definition sample_state :: app_state where
  "sample_state =
     \<lparr>st_mode = ''bulk'', st_email = '''', st_firstName = '''', st_lastName = '''',
      st_redirectUrl = ''https://myapplications.microsoft.com'',
      st_sendEmailFlag = True, st_resetRedemptionFlag = False,
      st_customizedMessageBody = '''',
      st_bulkInput = ''a@x.io\<newline>bad\<newline>b@x.io\<newline>c@x.io\<newline>d@x.io'',
      st_bulkEntriesFromFile = [], st_bulkFileName = '''',
      st_loading = False, st_result = None\<rparr>"

text \<open>
  Collaborators of the back end for the concrete runs: a managed configuration with
  enforcement and no allowed group, a local configuration, a decoder that knows the
  principals \<^verbatim>\<open>{"userId":"u-1"}\<close> and \<^verbatim>\<open>{"userId":{"toString":1}}\<close>, and a
  directory that knows one Member and answers an invitation with an empty object.
\<close>

definition sample_managed_config :: backend_config where
  "sample_managed_config =
     \<lparr>IS_AZURE_RUNTIME = True, ALLOW_LOCAL_ANONYMOUS_INVITE = True,
      ALLOWED_INVITER_GROUP_OBJECT_IDS = [], ENFORCE_GROUP_MEMBERSHIP_IN_AZURE = True,
      GUEST_SOURCE_VALUE = ''GuestInvited'', AZURE_CLIENT_ID = ''''\<rparr>"

definition sample_local_config :: backend_config where
  "sample_local_config =
     \<lparr>IS_AZURE_RUNTIME = False, ALLOW_LOCAL_ANONYMOUS_INVITE = True,
      ALLOWED_INVITER_GROUP_OBJECT_IDS = [], ENFORCE_GROUP_MEMBERSHIP_IN_AZURE = True,
      GUEST_SOURCE_VALUE = ''GuestInvited'', AZURE_CLIENT_ID = ''''\<rparr>"

definition sample_back_env :: back_env where
  \<open>sample_back_env =
     \<lparr>be_JSON_parse =
        (\<lambda>text. if text = ''{}'' then Some (JObj [])
                 else if text = ''{"id":"u-1","userType":"Member","accountEnabled":true}''
                 then Some (JObj [(''id'', JStr ''u-1''), (''userType'', JStr ''Member''),
                                  (''accountEnabled'', JBool True)])
                 else None),
      be_base64_json =
        (\<lambda>raw. if raw = ''eyJ1c2VySWQiOiJ1LTEifQ=='' then Some (JObj [(''userId'', JStr ''u-1'')])
                else if raw = ''eyJ1c2VySWQiOnsidG9TdHJpbmciOjF9fQ==''
                then Some (JObj [(''userId'', JObj [(''toString'', JNum 1)])])
                else None),
      be_getToken = Inr (Some ''t''),
      be_fetch =
        (\<lambda>n call.
           Inr \<lparr>gr_ok = True, gr_status = 200, gr_statusText = ''OK'',
                gr_text = (if gc_method call = ''GET''
                           then ''{"id":"u-1","userType":"Member","accountEnabled":true}''
                           else ''{}''),
                gr_wwwAuthenticate = None, gr_requestId = None, gr_clientRequestId = None\<rparr>)\<rparr>\<close>

section \<open>Properties of the string functions\<close>

lemma comma_neq_dquote [simp]: "comma \<noteq> dquote" "dquote \<noteq> comma"
  by (simp_all add: comma_def dquote_def)

lemma dropWhile_rev_dropWhile:
  "dropWhile P (rev (dropWhile P (rev (dropWhile P s)))) = rev (dropWhile P (rev (dropWhile P s)))"
proof (cases "dropWhile P s")
  case Nil
  show ?thesis unfolding Nil by simp
next
  case (Cons x xs)
  then have nx: "\<not> P x"
    by (metis hd_dropWhile list.sel(1) list.distinct(1))
  then have "rev (dropWhile P (rev (x # xs))) = x # rev (dropWhile P (rev xs))"
    by (simp add: dropWhile_append)
  then show ?thesis unfolding Cons using nx by simp
qed

lemma trim_trim: "trim (trim s) = trim s"
proof -
  let ?t = "rev (dropWhile is_space (rev (dropWhile is_space s)))"
  have a: "dropWhile is_space ?t = ?t"
    by (rule dropWhile_rev_dropWhile)
  have b: "dropWhile is_space (rev ?t) = rev ?t"
  proof (cases "dropWhile is_space (rev (dropWhile is_space s))")
    case Nil
    then show ?thesis by simp
  next
    case (Cons y ys)
    then have "\<not> is_space y"
      by (metis hd_dropWhile list.sel(1) list.distinct(1))
    then show ?thesis using Cons by simp
  qed
  show ?thesis
    unfolding trim_def a b by simp
qed

lemma parseCsvLine_loop_csv_fields:
  "parseCsvLine_loop line i current inQuotes out = out @ csv_fields inQuotes current (drop i line)"
proof (induction line i current inQuotes out rule: parseCsvLine_loop.induct)
  case (1 line i current inQuotes out)
  show ?case
  proof (cases "i < length line")
    case False
    then show ?thesis
      by (simp add: parseCsvLine_loop.simps [of line i])
  next
    case True
    note i = True
    show ?thesis
    proof (cases "i + 1 < length line")
      case False
      with i have d: "drop i line = [line ! i]"
        by (metis Cons_nth_drop_Suc Suc_eq_plus1 drop_all linorder_not_less)
      from False have d1: "drop (i + 1) line = []" by simp
      show ?thesis
        using i False "1.IH"(2,3,4) d1
        by (simp add: parseCsvLine_loop.simps [of line i] d Let_def)
    next
      case True
      with i have d: "drop i line = line ! i # line ! (i + 1) # drop (i + 1 + 1) line"
        by (metis Cons_nth_drop_Suc Suc_eq_plus1)
      from True have d1: "drop (i + 1) line = line ! (i + 1) # drop (i + 1 + 1) line"
        by (metis Cons_nth_drop_Suc Suc_eq_plus1)
      show ?thesis
        using i True "1.IH" d1
        by (simp add: parseCsvLine_loop.simps [of line i] d Let_def)
    qed
  qed
qed

lemma parseCsvLine_csv_fields: "parseCsvLine line = csv_fields False [] line"
  by (simp add: parseCsvLine_def parseCsvLine_loop_csv_fields)

lemma csv_fields_trimmed: "map trim (csv_fields inQuotes current rest) = csv_fields inQuotes current rest"
  by (induction inQuotes current rest rule: csv_fields.induct) (simp_all add: trim_trim)

lemma csv_fields_no_quote:
  "dquote \<notin> set rest \<Longrightarrow> csv_fields False current rest = map trim (split_commas current rest)"
  by (induction "False" current rest rule: csv_fields.induct) auto

text \<open>The test of the regular expression is the address shape of the specification.\<close>

lemma email_char_dot: "email_char (CHR ''.'')"
  by (simp add: email_char_def is_space_def)

lemma not_email_char_at: "\<not> email_char (CHR ''@'')"
  by (simp add: email_char_def)

lemma EMAIL_REGEX_test_imp_shape:
  assumes "EMAIL_REGEX_test s"
  shows "email_shape s"
proof -
  from assms obtain domain where
    a: "takeWhile email_char s \<noteq> []"
    and d: "dropWhile email_char s = CHR ''@'' # domain"
    and all: "list_all email_char domain"
    and dot: "CHR ''.'' \<in> set (butlast (tl domain))"
    by (auto simp: EMAIL_REGEX_test_def split: list.splits)
  from dot obtain u v where uv: "butlast (tl domain) = u @ CHR ''.'' # v"
    by (meson split_list)
  then have tlne: "tl domain \<noteq> []"
    by auto
  then have dne: "domain \<noteq> []"
    by auto
  have "domain = hd domain # tl domain"
    using dne by simp
  also have "tl domain = butlast (tl domain) @ [last (tl domain)]"
    using tlne by simp
  finally have dom: "domain = (hd domain # u) @ ''.'' @ (v @ [last (tl domain)])"
    unfolding uv by simp
  have s: "s = takeWhile email_char s @ ''@'' @ (hd domain # u) @ ''.'' @ (v @ [last (tl domain)])"
    using takeWhile_dropWhile_id [of email_char s] d dom by simp
  have "list_all email_char (takeWhile email_char s)"
    by (simp add: list_all_iff) (meson set_takeWhileD)
  moreover from all dom have "list_all email_char (hd domain # u)"
    and "list_all email_char (v @ [last (tl domain)])"
    by (metis list_all_append)+
  ultimately show ?thesis
    unfolding email_shape_def using a s by blast
qed

lemma shape_imp_EMAIL_REGEX_test:
  assumes "email_shape s"
  shows "EMAIL_REGEX_test s"
proof -
  from assms obtain a b c where s: "s = a @ ''@'' @ b @ ''.'' @ c"
    and ne: "a \<noteq> []" "b \<noteq> []" "c \<noteq> []"
    and all: "list_all email_char a" "list_all email_char b" "list_all email_char c"
    unfolding email_shape_def by blast
  have tw: "takeWhile email_char s = a"
    unfolding s using all(1) not_email_char_at
    by (simp add: takeWhile_append2 list_all_iff)
  have dw: "dropWhile email_char s = CHR ''@'' # (b @ ''.'' @ c)"
    unfolding s using all(1) not_email_char_at
    by (simp add: dropWhile_append2 list_all_iff)
  obtain b0 b' where b: "b = b0 # b'"
    using ne(2) by (cases b) auto
  have "butlast (tl (b @ ''.'' @ c)) = b' @ CHR ''.'' # butlast c"
    using ne(3) by (simp add: b butlast_append)
  then have dot: "CHR ''.'' \<in> set (butlast (tl (b @ ''.'' @ c)))"
    by simp
  have "list_all email_char (b @ ''.'' @ c)"
    using all email_char_dot by simp
  with tw dw dot ne(1) show ?thesis
    by (simp add: EMAIL_REGEX_test_def)
qed

lemma EMAIL_REGEX_test_iff_shape: "EMAIL_REGEX_test s = email_shape s"
  using EMAIL_REGEX_test_imp_shape shape_imp_EMAIL_REGEX_test by blast

section \<open>C5: the row parser\<close>

text \<open>
  Claim C5. \<^verbatim>\<open>parseCsvLine\<close> maps every line to a sequence of trimmed fields, with no
  error case and no state. It yields the three fields a, b,c and d on the line
  a,"b,c",d and the two fields a and b"c on the line a,"b""c"; a quote that is never
  closed keeps the rest of the line in one field; the empty line gives one empty field.
  On every line the loop computes the fields of the quoting rules (\<^const>\<open>csv_fields\<close>),
  every field it returns is trimmed, and a line without quotes is cut at each of its
  commas.
\<close>

theorem parseCsvLine_contract:
  \<open>parseCsvLine ''a,"b,c",d'' = [''a'', ''b,c'', ''d'']
   \<and> parseCsvLine ''a,"b""c"'' = [''a'', ''b"c'']
   \<and> parseCsvLine ''x, "y,z'' = [''x'', ''y,z'']
   \<and> parseCsvLine '''' = ['''']
   \<and> parseCsvLine line = csv_fields False [] line
   \<and> map trim (parseCsvLine line) = parseCsvLine line
   \<and> (dquote \<notin> set line \<longrightarrow> parseCsvLine line = map trim (split_commas [] line))\<close>
proof -
  have e1: \<open>parseCsvLine ''a,"b,c",d'' = [''a'', ''b,c'', ''d'']\<close> by code_simp
  have e2: \<open>parseCsvLine ''a,"b""c"'' = [''a'', ''b"c'']\<close> by code_simp
  have e3: \<open>parseCsvLine ''x, "y,z'' = [''x'', ''y,z'']\<close> by code_simp
  have e4: \<open>parseCsvLine '''' = ['''']\<close> by code_simp
  have r: "parseCsvLine line = csv_fields False [] line"
    by (rule parseCsvLine_csv_fields)
  have t: "map trim (parseCsvLine line) = parseCsvLine line"
    unfolding r by (rule csv_fields_trimmed)
  have q: "dquote \<notin> set line \<longrightarrow> parseCsvLine line = map trim (split_commas [] line)"
    unfolding r by (simp add: csv_fields_no_quote)
  from e1 e2 e3 e4 r t q show ?thesis by blast
qed

theorem parseCsvLine_contract_witness:
  \<open>dquote \<notin> set ''a , b,c'' \<and> parseCsvLine ''a , b,c'' = [''a'', ''b'', ''c'']\<close>
proof -
  have h: \<open>dquote \<notin> set ''a , b,c''\<close>
    by (simp add: dquote_def)
  have s: \<open>map trim (split_commas [] ''a , b,c'') = [''a'', ''b'', ''c'']\<close>
    by code_simp
  have \<open>dquote \<notin> set ''a , b,c'' \<longrightarrow>
      parseCsvLine ''a , b,c'' = map trim (split_commas [] ''a , b,c'')\<close>
    using parseCsvLine_contract [of "''a , b,c''"] by blast
  from this h have \<open>parseCsvLine ''a , b,c'' = map trim (split_commas [] ''a , b,c'')\<close>
    by (rule mp)
  from this s have \<open>parseCsvLine ''a , b,c'' = [''a'', ''b'', ''c'']\<close>
    by (rule trans)
  with h show ?thesis by (rule conjI)
qed

section \<open>C6: the invite request builder\<close>

text \<open>
  Claim C6. For every entry, the body built by \<^verbatim>\<open>buildInvitePayload\<close> starts with
  \<^verbatim>\<open>email\<close> and \<^verbatim>\<open>displayName\<close> (the empty string when the entry has none),
  followed, in this order and only under the stated conditions, by \<^verbatim>\<open>firstName\<close> and
  \<^verbatim>\<open>lastName\<close> when they are not empty, the redirect address under both
  \<^verbatim>\<open>inviteRedirectUrl\<close> and \<^verbatim>\<open>inviteRedirectURL\<close> when there is one,
  \<^verbatim>\<open>sendEmail\<close> when it is a boolean, \<^verbatim>\<open>customizedMessageBody\<close> when it is not
  empty and \<^verbatim>\<open>resetRedemption\<close> when it is a boolean; the body has no other key.
  The single invite of the specification (no names, a redirect address, sendEmail true)
  gets both redirect keys and neither name key.
\<close>

theorem buildInvitePayload_keys:
  "buildInvitePayload payload =
     [(''email'', obj_get payload ''email''),
      (''displayName'',
       if truthy (obj_get payload ''displayName'') then obj_get payload ''displayName''
       else JStr '''')]
     @ (if truthy (obj_get payload ''firstName'')
        then [(''firstName'', obj_get payload ''firstName'')] else [])
     @ (if truthy (obj_get payload ''lastName'')
        then [(''lastName'', obj_get payload ''lastName'')] else [])
     @ (if truthy (obj_get payload ''inviteRedirectUrl'')
        then [(''inviteRedirectUrl'', obj_get payload ''inviteRedirectUrl''),
              (''inviteRedirectURL'', obj_get payload ''inviteRedirectUrl'')] else [])
     @ (if is_boolean (obj_get payload ''sendEmail'')
        then [(''sendEmail'', obj_get payload ''sendEmail'')] else [])
     @ (if truthy (obj_get payload ''customizedMessageBody'')
        then [(''customizedMessageBody'', obj_get payload ''customizedMessageBody'')] else [])
     @ (if is_boolean (obj_get payload ''resetRedemption'')
        then [(''resetRedemption'', obj_get payload ''resetRedemption'')] else [])
   \<and> buildInvitePayload
        [(''email'', JStr ''guest@external.com''), (''firstName'', JStr ''''),
         (''lastName'', JStr ''''), (''displayName'', JStr ''''),
         (''inviteRedirectUrl'', JStr ''https://myapplications.microsoft.com''),
         (''sendEmail'', JBool True), (''customizedMessageBody'', JStr ''''),
         (''resetRedemption'', JBool False)]
      = [(''email'', JStr ''guest@external.com''), (''displayName'', JStr ''''),
         (''inviteRedirectUrl'', JStr ''https://myapplications.microsoft.com''),
         (''inviteRedirectURL'', JStr ''https://myapplications.microsoft.com''),
         (''sendEmail'', JBool True), (''resetRedemption'', JBool False)]"
proof (rule conjI)
  show "buildInvitePayload
        [(''email'', JStr ''guest@external.com''), (''firstName'', JStr ''''),
         (''lastName'', JStr ''''), (''displayName'', JStr ''''),
         (''inviteRedirectUrl'', JStr ''https://myapplications.microsoft.com''),
         (''sendEmail'', JBool True), (''customizedMessageBody'', JStr ''''),
         (''resetRedemption'', JBool False)]
      = [(''email'', JStr ''guest@external.com''), (''displayName'', JStr ''''),
         (''inviteRedirectUrl'', JStr ''https://myapplications.microsoft.com''),
         (''inviteRedirectURL'', JStr ''https://myapplications.microsoft.com''),
         (''sendEmail'', JBool True), (''resetRedemption'', JBool False)]"
    by code_simp
qed (simp add: buildInvitePayload_def Let_def js_or_def)

section \<open>C1: placeholder rows of the template\<close>

text \<open>
  Claim C1 says that a data row whose email column is \<^verbatim>\<open>Example: foo@bar.com\<close> is
  skipped without an entry and without an error. The code removes the prefix before it
  tests for it, so the row is read as the address \<^verbatim>\<open>foo@bar.com\<close>: with any address
  parser, the template made of a version row, a header row and this row gives one entry
  when the redirect address of the row is accepted, and one error for line 3 otherwise.
\<close>

theorem parseEntraTemplateCsv_example_row: "parseEntraTemplateCsv URL_new
     ''version:v1.0\<newline>[inviteeEmail],[inviteRedirectURL]\<newline>Example: foo@bar.com,https://myapplications.microsoft.com''
     defaults =
   (if isValidHttpUrl URL_new ''https://myapplications.microsoft.com''
    then \<lparr>entries = [[(''email'', JStr ''foo@bar.com''), (''firstName'', JStr ''''),
      (''lastName'', JStr ''''), (''displayName'', JStr ''''),
      (''inviteRedirectUrl'', JStr ''https://myapplications.microsoft.com''),
      (''sendEmail'', JBool True), (''customizedMessageBody'', JStr ''''),
      (''resetRedemption'', obj_get defaults ''resetRedemption'')]], errors = []\<rparr>
    else \<lparr>entries = [], errors = [''Line 3: invalid inviteRedirectURL'']\<rparr>)"
proof -
  have L: "nonblank_lines ''version:v1.0\<newline>[inviteeEmail],[inviteRedirectURL]\<newline>Example: foo@bar.com,https://myapplications.microsoft.com'' =
      [''version:v1.0'', ''[inviteeEmail],[inviteRedirectURL]'', ''Example: foo@bar.com,https://myapplications.microsoft.com'']"
    by code_simp
  have H: "parseCsvLine ''[inviteeEmail],[inviteRedirectURL]'' = [''[inviteeEmail]'', ''[inviteRedirectURL]'']"
    by code_simp
  have F: "findIndex (\<lambda>h. str_includes h ''[inviteeEmail]'') [''[inviteeEmail]'', ''[inviteRedirectURL]''] = Some 0"
    "findIndex (\<lambda>h. str_includes h ''[inviteRedirectURL]'') [''[inviteeEmail]'', ''[inviteRedirectURL]''] = Some 1"
    "findIndex (\<lambda>h. str_includes h ''[sendEmail]'') [''[inviteeEmail]'', ''[inviteRedirectURL]''] = None"
    "findIndex (\<lambda>h. str_includes h ''[customizedMessageBody]'') [''[inviteeEmail]'', ''[inviteRedirectURL]''] = None"
    by code_simp+
  have R: "parseCsvLine ''Example: foo@bar.com,https://myapplications.microsoft.com'' =
      [''Example: foo@bar.com'', ''https://myapplications.microsoft.com'']"
    by code_simp
  have E: "strip_example_prefix ''Example: foo@bar.com'' = ''foo@bar.com''"
    by code_simp
  have S: "\<not> startsWith ''foo@bar.com'' ''Example:''"
    by code_simp
  have N: "normalizeEmail ''foo@bar.com'' = ''foo@bar.com''"
    by code_simp
  have T: "EMAIL_REGEX_test ''foo@bar.com''"
    by code_simp
  have U: "trim ''https://myapplications.microsoft.com'' = ''https://myapplications.microsoft.com''"
    by code_simp
  have B: "parseBoolean (BoolValue True) True = True"
    by code_simp
  have D: "string_of_nat 3 = ''3''"
    by code_simp
  show ?thesis
    unfolding parseEntraTemplateCsv_def Let_def L
    by (simp add: H F R E S N T U B D Let_def cell_text_def
          parseEntraTemplateCsv_rows.simps [of _ _ _ _ 2] parseEntraTemplateCsv_rows.simps [of _ _ _ _ 3])
qed

section \<open>C4: the free-form parser\<close>

lemma parseManualBulk_rows_entries:
  "entries (parseManualBulk_rows defaults ls k acc) =
     entries acc @
     map (\<lambda>l. [(''email'', JStr (normalizeEmail (cell_text (parseCsvLine l) 0))),
                (''firstName'', JStr (sanitizeName (cell_text (parseCsvLine l) 1))),
                (''lastName'', JStr (sanitizeName (cell_text (parseCsvLine l) 2))),
                (''displayName'', JStr (getDisplayName (sanitizeName (cell_text (parseCsvLine l) 1))
                                        (sanitizeName (cell_text (parseCsvLine l) 2)))),
                (''inviteRedirectUrl'', obj_get defaults ''redirectUrl''),
                (''sendEmail'', obj_get defaults ''sendEmail''),
                (''customizedMessageBody'', obj_get defaults ''customizedMessageBody''),
                (''resetRedemption'', obj_get defaults ''resetRedemption'')])
         (filter (\<lambda>l. EMAIL_REGEX_test (normalizeEmail (cell_text (parseCsvLine l) 0))) ls)"
  by (induction ls arbitrary: k acc) (simp_all add: Let_def)

lemma parseManualBulk_rows_errors:
  "errors (parseManualBulk_rows defaults ls k acc) =
     errors acc @
     map (\<lambda>(i, l). ''Line '' @ string_of_nat (i + 1) @ '': invalid email'')
         (filter (\<lambda>(i, l). \<not> EMAIL_REGEX_test (normalizeEmail (cell_text (parseCsvLine l) 0)))
            (enumerate k ls))"
  by (induction ls arbitrary: k acc) (simp_all add: Let_def)

lemma length_filter_enumerate:
  "length (filter (\<lambda>(i, l). Q l) (enumerate k ls)) = length (filter Q ls)"
  by (induction ls arbitrary: k) simp_all

text \<open>
  Claim C4, amended. \<^verbatim>\<open>parseManualBulk\<close> goes through the non-blank lines of the
  text in order. Each line whose first field, trimmed and in lower case, has the address
  shape (\<^const>\<open>email_shape\<close>) gives one entry with that address; each other line gives one error
  \<^verbatim>\<open>Line N: invalid email\<close>, where N is the position of the line among the non-blank
  lines, counted from 1. So every non-blank line gives an entry or an error and never
  both, blank lines give nothing, and a line that fails does not end the run.
\<close>

theorem parseManualBulk_partition:
  "entries (parseManualBulk rawText defaults) =
     map (\<lambda>l. [(''email'', JStr (toLowerCase (trim (cell_text (parseCsvLine l) 0)))),
                (''firstName'', JStr (sanitizeName (cell_text (parseCsvLine l) 1))),
                (''lastName'', JStr (sanitizeName (cell_text (parseCsvLine l) 2))),
                (''displayName'', JStr (getDisplayName (sanitizeName (cell_text (parseCsvLine l) 1))
                                        (sanitizeName (cell_text (parseCsvLine l) 2)))),
                (''inviteRedirectUrl'', obj_get defaults ''redirectUrl''),
                (''sendEmail'', obj_get defaults ''sendEmail''),
                (''customizedMessageBody'', obj_get defaults ''customizedMessageBody''),
                (''resetRedemption'', obj_get defaults ''resetRedemption'')])
         (filter (\<lambda>l. email_shape (toLowerCase (trim (cell_text (parseCsvLine l) 0))))
            (nonblank_lines rawText))
   \<and> errors (parseManualBulk rawText defaults) =
     map (\<lambda>(i, l). ''Line '' @ string_of_nat (i + 1) @ '': invalid email'')
         (filter (\<lambda>(i, l). \<not> email_shape (toLowerCase (trim (cell_text (parseCsvLine l) 0))))
            (enumerate 0 (nonblank_lines rawText)))
   \<and> length (entries (parseManualBulk rawText defaults))
       + length (errors (parseManualBulk rawText defaults)) = length (nonblank_lines rawText)"
proof -
  let ?ok = "\<lambda>l. email_shape (toLowerCase (trim (cell_text (parseCsvLine l) 0)))"
  have e: "entries (parseManualBulk rawText defaults) =
     map (\<lambda>l. [(''email'', JStr (toLowerCase (trim (cell_text (parseCsvLine l) 0)))),
                (''firstName'', JStr (sanitizeName (cell_text (parseCsvLine l) 1))),
                (''lastName'', JStr (sanitizeName (cell_text (parseCsvLine l) 2))),
                (''displayName'', JStr (getDisplayName (sanitizeName (cell_text (parseCsvLine l) 1))
                                        (sanitizeName (cell_text (parseCsvLine l) 2)))),
                (''inviteRedirectUrl'', obj_get defaults ''redirectUrl''),
                (''sendEmail'', obj_get defaults ''sendEmail''),
                (''customizedMessageBody'', obj_get defaults ''customizedMessageBody''),
                (''resetRedemption'', obj_get defaults ''resetRedemption'')])
         (filter ?ok (nonblank_lines rawText))"
    by (simp add: parseManualBulk_def parseManualBulk_rows_entries normalizeEmail_def
        EMAIL_REGEX_test_iff_shape)
  have r: "errors (parseManualBulk rawText defaults) =
     map (\<lambda>(i, l). ''Line '' @ string_of_nat (i + 1) @ '': invalid email'')
         (filter (\<lambda>(i, l). \<not> ?ok l) (enumerate 0 (nonblank_lines rawText)))"
    by (simp add: parseManualBulk_def parseManualBulk_rows_errors normalizeEmail_def
        EMAIL_REGEX_test_iff_shape)
  have "length (entries (parseManualBulk rawText defaults))
       + length (errors (parseManualBulk rawText defaults)) = length (nonblank_lines rawText)"
    unfolding e r
    by (simp add: length_filter_enumerate [of "\<lambda>l. \<not> ?ok l"] sum_length_filter_compl)
  with e r show ?thesis by blast
qed

theorem parseManualBulk_partition_witness:
  "errors (parseManualBulk (CHR 0x0A # ''bad\<newline> A@B.co , x'') []) = [''Line 1: invalid email'']
   \<and> map (\<lambda>e. obj_get e ''email'') (entries (parseManualBulk (CHR 0x0A # ''bad\<newline> A@B.co , x'') []))
       = [JStr ''a@b.co'']"
proof -
  have n: "nonblank_lines (CHR 0x0A # ''bad\<newline> A@B.co , x'') = [''bad'', ''A@B.co , x'']"
    by code_simp
  have a: "toLowerCase (trim (cell_text (parseCsvLine ''bad'') 0)) = ''bad''"
    "toLowerCase (trim (cell_text (parseCsvLine ''A@B.co , x'') 0)) = ''a@b.co''"
    by code_simp+
  have t: "\<not> email_shape ''bad''" "email_shape ''a@b.co''"
    unfolding EMAIL_REGEX_test_iff_shape [symmetric] by code_simp+
  have d: "string_of_nat (Suc 0) = ''1''"
    by code_simp
  show ?thesis
    using parseManualBulk_partition [of "CHR 0x0A # ''bad\<newline> A@B.co , x''" "[]"]
    by (simp add: n a t d enumerate_eq_zip obj_get_def)
qed

text \<open>
  Claim C4 as stated has the error cite the line number of the line. In a text whose
  first line is blank and whose second line is \<^verbatim>\<open>bad\<close>, the error cites line 1.
\<close>

theorem parseManualBulk_line_number_counterexample:
  "split_lines [] (CHR 0x0A # ''bad'') = ['''', ''bad'']
   \<and> parseManualBulk (CHR 0x0A # ''bad'') [] = \<lparr>entries = [], errors = [''Line 1: invalid email'']\<rparr>"
  by code_simp

section \<open>C7: what a failed call returns\<close>

lemma js_get_not_obj: "\<not> truthy p \<or> \<not> typeof_object p \<Longrightarrow> js_get p k = JUndefined"
  by (cases p) auto

lemma safeResponse_safe_fields:
  "safeResponse p = (if safe_fields p \<noteq> [] then JObj (safe_fields p) else JNull)"
proof (cases "\<not> truthy p \<or> \<not> typeof_object p")
  case True
  then show ?thesis
    by (simp add: safeResponse_def safe_fields_def js_get_not_obj)
next
  case False
  then show ?thesis
    by (simp add: safeResponse_def safe_fields_def Let_def)
qed

lemma obj_get_safe_fields:
  "obj_get (safe_fields p) k =
     (if k \<in> set [''message'', ''status'', ''code'', ''error'', ''detail''] \<and> is_string (js_get p k)
      then js_get p k else JUndefined)"
  by (simp add: safe_fields_def obj_get_def)

lemma safe_fields_Nil: "safe_fields p = [] \<Longrightarrow> \<not> is_string (js_get p ''error'')"
  by (simp add: safe_fields_def split: if_splits)

lemma distinct_safe_fields: "distinct (map fst (safe_fields p))"
  by (simp add: safe_fields_def)

lemma keys_safe_fields:
  "set (map fst (safe_fields p)) \<subseteq> set [''message'', ''status'', ''code'', ''error'', ''detail'']"
  by (auto simp: safe_fields_def)

lemma map_fst_obj_set:
  "map fst (obj_set kvs k v) = (if k \<in> set (map fst kvs) then map fst kvs else map fst kvs @ [k])"
  by (induction kvs) force+

lemma keys_obj_set: "set (map fst (obj_set kvs k v)) = insert k (set (map fst kvs))"
  unfolding map_fst_obj_set by auto

lemma distinct_obj_set: "distinct (map fst kvs) \<Longrightarrow> distinct (map fst (obj_set kvs k v))"
  unfolding map_fst_obj_set by auto

lemma obj_get_obj_set: "obj_get (obj_set kvs k v) k' = (if k' = k then v else obj_get kvs k')"
  by (induction kvs) (auto simp: obj_get_def)

lemma obj_set_fresh: "k \<notin> set (map fst kvs) \<Longrightarrow> obj_set kvs k v = kvs @ [(k, v)]"
  by (induction kvs) auto

lemma obj_spread_fresh:
  "distinct (map fst kvs) \<Longrightarrow> set (map fst a) \<inter> set (map fst kvs) = {} \<Longrightarrow> obj_spread a kvs = a @ kvs"
proof (induction kvs arbitrary: a)
  case Nil
  then show ?case by simp
next
  case (Cons kv kvs)
  obtain k v where kv: "kv = (k, v)" by (cases kv)
  from Cons.prems have fresh: "k \<notin> set (map fst a)" and d: "distinct (map fst kvs)"
    and nk: "k \<notin> set (map fst kvs)" and dj: "set (map fst a) \<inter> set (map fst kvs) = {}"
    by (auto simp: kv)
  have "obj_spread (a @ [(k, v)]) kvs = (a @ [(k, v)]) @ kvs"
    using d nk dj by (intro Cons.IH) auto
  then show ?case
    by (simp add: kv obj_set_fresh [OF fresh])
qed

lemma obj_get_notin: "k \<notin> set (map fst kvs) \<Longrightarrow> obj_get kvs k = JUndefined"
  by (simp add: obj_get_def map_of_eq_None_iff [THEN iffD2])

lemma obj_get_append: "obj_get (a @ b) k = (if k \<in> set (map fst a) then obj_get a k else obj_get b k)"
proof (cases "map_of a k")
  case None
  then have "k \<notin> set (map fst a)"
    by (simp add: map_of_eq_None_iff)
  with None show ?thesis
    by (simp add: obj_get_def map_add_def)
next
  case (Some v)
  then have "k \<in> set (map fst a)"
    by (metis map_of_eq_None_iff option.distinct(1) set_map)
  with Some show ?thesis
    by (simp add: obj_get_def map_add_def)
qed

text \<open>
  Claim C7, amended. For every response that is not ok, \<^verbatim>\<open>sendInvite\<close> returns a
  failure whose data has no key besides \<^verbatim>\<open>message\<close>, \<^verbatim>\<open>status\<close>, \<^verbatim>\<open>code\<close>,
  \<^verbatim>\<open>error\<close>, \<^verbatim>\<open>detail\<close> and \<^verbatim>\<open>backendResponse\<close>. The first, second, third
  and fifth are there when the parsed body has them as strings, with the same value.
  \<^verbatim>\<open>error\<close> is always there: the string of the body when it has one that is not
  empty, otherwise a message with the HTTP status. \<^verbatim>\<open>backendResponse\<close> holds the
  first 280 characters of the raw body whenever the body is not empty, whether or not
  the body had an error field.
\<close>

theorem sendInvite_failure_data:
  assumes nok: "\<not> res_ok res"
    and parsed: "parsed = (if res_text res \<noteq> [] then
                             (case env_JSON_parse env (res_text res) of None \<Rightarrow> JNull | Some v \<Rightarrow> v)
                           else JNull)"
  shows "\<exists>d. sendInvite_result env (Responded res) = \<lparr>ok = False, data = JObj d\<rparr>
           \<and> distinct (map fst d)
           \<and> set (map fst d) \<subseteq>
               set [''message'', ''status'', ''code'', ''error'', ''detail'', ''backendResponse'']
           \<and> (\<forall>k \<in> set [''message'', ''status'', ''code'', ''detail''].
                 obj_get d k = (if is_string (js_get parsed k) then js_get parsed k else JUndefined))
           \<and> obj_get d ''error'' =
               (if is_string (js_get parsed ''error'') \<and> truthy (js_get parsed ''error'')
                then js_get parsed ''error''
                else JStr (''Invite failed with HTTP '' @ string_of_nat (res_status res)
                           @ ''. Check API permissions and payload format.''))
           \<and> obj_get d ''backendResponse'' =
               (if res_text res = [] then JUndefined else JStr (take 280 (res_text res)))"
proof -
  define E where "E = js_or (js_and (safeResponse parsed) (js_get (safeResponse parsed) ''error''))
     (JStr (''Invite failed with HTTP '' @ string_of_nat (res_status res)
            @ ''. Check API permissions and payload format.''))"
  define bk where "bk = (if res_text res = [] then [] else [(''backendResponse'', JStr (take 280 (res_text res)))])"
  define d0 where "d0 = obj_set (safe_fields parsed) ''error'' E"
  have sp: "(case js_or (safeResponse parsed) (JObj []) of JObj kvs \<Rightarrow> kvs | _ \<Rightarrow> []) = safe_fields parsed"
    by (simp add: safeResponse_safe_fields js_or_def)
  have spread0: "obj_spread [] (safe_fields parsed) = safe_fields parsed"
    using obj_spread_fresh [of "safe_fields parsed" "[]"] by (simp add: distinct_safe_fields)
  have k0: "set (map fst d0) \<subseteq> set [''message'', ''status'', ''code'', ''error'', ''detail'']"
    using keys_safe_fields [of parsed] unfolding d0_def keys_obj_set by auto
  have dd0: "distinct (map fst d0)"
    by (simp add: d0_def distinct_obj_set distinct_safe_fields)
  have nb: "''backendResponse'' \<notin> set (map fst d0)"
    using k0 by auto
  have spread1: "obj_spread d0 bk = d0 @ bk"
    using nb by (intro obj_spread_fresh) (auto simp: bk_def)
  have res: "sendInvite_result env (Responded res) = \<lparr>ok = False, data = JObj (d0 @ bk)\<rparr>"
    unfolding sendInvite_result_def fetch_outcome.case Let_def parsed [symmetric] sp spread0
      E_def [symmetric] d0_def [symmetric]
    using nok by (simp add: bk_def obj_set_fresh [OF nb])
  have Eval: "E = (if is_string (js_get parsed ''error'') \<and> truthy (js_get parsed ''error'')
                then js_get parsed ''error''
                else JStr (''Invite failed with HTTP '' @ string_of_nat (res_status res)
                           @ ''. Check API permissions and payload format.''))"
    using safe_fields_Nil [of parsed]
    by (auto simp: E_def safeResponse_safe_fields js_or_def js_and_def obj_get_safe_fields)
  have bkU: "obj_get bk k = JUndefined" if "k \<noteq> ''backendResponse''" for k
    using that by (simp add: bk_def obj_get_def)
  have gen: "obj_get (d0 @ bk) k = obj_get (safe_fields parsed) k"
    if "k \<noteq> ''error''" "k \<noteq> ''backendResponse''" for k
  proof (cases "k \<in> set (map fst d0)")
    case True
    then show ?thesis
      using that by (simp add: obj_get_append d0_def obj_get_obj_set)
  next
    case False
    then have "k \<notin> set (map fst (safe_fields parsed))"
      unfolding d0_def keys_obj_set by simp
    then have "obj_get (safe_fields parsed) k = JUndefined"
      by (rule obj_get_notin)
    with False show ?thesis
      using that by (simp add: obj_get_append bkU)
  qed
  have "distinct (map fst (d0 @ bk))"
    using dd0 nb by (simp add: bk_def)
  moreover have "set (map fst (d0 @ bk)) \<subseteq>
      set [''message'', ''status'', ''code'', ''error'', ''detail'', ''backendResponse'']"
    using k0 by (auto simp: bk_def)
  moreover have "\<forall>k \<in> set [''message'', ''status'', ''code'', ''detail''].
       obj_get (d0 @ bk) k = (if is_string (js_get parsed k) then js_get parsed k else JUndefined)"
    by (simp add: gen obj_get_safe_fields)
  moreover have "obj_get (d0 @ bk) ''error'' =
      (if is_string (js_get parsed ''error'') \<and> truthy (js_get parsed ''error'')
                then js_get parsed ''error''
                else JStr (''Invite failed with HTTP '' @ string_of_nat (res_status res)
                           @ ''. Check API permissions and payload format.''))"
  proof -
    have ke: "''error'' \<in> set (map fst d0)"
      unfolding d0_def keys_obj_set by simp
    have "obj_get d0 ''error'' = E"
      by (simp add: d0_def obj_get_obj_set)
    with ke have "obj_get (d0 @ bk) ''error'' = E"
      by (simp add: obj_get_append)
    then show ?thesis
      unfolding Eval .
  qed
  moreover have "obj_get (d0 @ bk) ''backendResponse'' =
       (if res_text res = [] then JUndefined else JStr (take 280 (res_text res)))"
  proof -
    have "obj_get (d0 @ bk) ''backendResponse'' = obj_get bk ''backendResponse''"
      using nb by (simp add: obj_get_append)
    also have "\<dots> = (if res_text res = [] then JUndefined else JStr (take 280 (res_text res)))"
      by (simp add: bk_def obj_get_def)
    finally show ?thesis .
  qed
  ultimately show ?thesis
    using res by blast
qed

theorem sendInvite_failure_data_witness:
  \<open>\<exists>d. sendInvite_result sample_env
          (Responded \<lparr>res_ok = False, res_status = 403,
                      res_text = ''{"error":"denied","traceId":"t-1"}''\<rparr>)
        = \<lparr>ok = False, data = JObj d\<rparr>
      \<and> obj_get d ''error'' = JStr ''denied''
      \<and> obj_get d ''traceId'' = JUndefined\<close>
proof -
  let ?res = \<open>\<lparr>res_ok = False, res_status = 403,
                res_text = ''{"error":"denied","traceId":"t-1"}''\<rparr>\<close>
  have h: "\<not> res_ok ?res"
    by simp
  have p: \<open>JObj [(''error'', JStr ''denied''), (''traceId'', JStr ''t-1'')] =
      (if res_text ?res \<noteq> [] then
         (case env_JSON_parse sample_env (res_text ?res) of None \<Rightarrow> JNull | Some v \<Rightarrow> v)
       else JNull)\<close>
    by (simp add: sample_env_def sample_JSON_parse_def)
  from sendInvite_failure_data [OF h p] obtain d where
    d: "sendInvite_result sample_env (Responded ?res) = \<lparr>ok = False, data = JObj d\<rparr>"
    and k: "set (map fst d) \<subseteq>
      set [''message'', ''status'', ''code'', ''error'', ''detail'', ''backendResponse'']"
    and e: "obj_get d ''error'' =
      (if is_string (js_get (JObj [(''error'', JStr ''denied''), (''traceId'', JStr ''t-1'')]) ''error'')
          \<and> truthy (js_get (JObj [(''error'', JStr ''denied''), (''traceId'', JStr ''t-1'')]) ''error'')
       then js_get (JObj [(''error'', JStr ''denied''), (''traceId'', JStr ''t-1'')]) ''error''
       else JStr (''Invite failed with HTTP '' @ string_of_nat (res_status ?res)
                  @ ''. Check API permissions and payload format.''))"
    by blast
  from k have "''traceId'' \<notin> set (map fst d)"
    by auto
  then have "obj_get d ''traceId'' = JUndefined"
    by (rule obj_get_notin)
  moreover from e have "obj_get d ''error'' = JStr ''denied''"
    by (simp add: obj_get_def)
  ultimately show ?thesis
    using d by blast
qed

text \<open>
  Claim C7 as stated has the raw text only when the body has no structured error field.
  A 403 answer whose body has the string field \<^verbatim>\<open>error\<close> and one more field gives
  data with the error and with the whole raw body.
\<close>

theorem sendInvite_raw_text_counterexample:
  \<open>sendInvite_result sample_env
      (Responded \<lparr>res_ok = False, res_status = 403,
                  res_text = ''{"error":"denied","traceId":"t-1"}''\<rparr>)
    = \<lparr>ok = False,
       data = JObj [(''error'', JStr ''denied''),
                    (''backendResponse'', JStr ''{"error":"denied","traceId":"t-1"}'')]\<rparr>\<close>
  by code_simp

section \<open>C3 and C8: the bulk submission\<close>

lemma submit_entries_calls:
  "snd (submit_entries env es failures calls) =
     calls @ map (\<lambda>e. \<lparr>req_url = API_URL, req_body = buildInvitePayload e\<rparr>) es"
  by (induction es arbitrary: failures calls) (simp_all add: sendInvite_def Let_def)

lemma submit_entries_failures:
  "fst (submit_entries env es failures calls) =
     failures @
     map (\<lambda>(i, e). JObj [(''email'', obj_get e ''email''),
             (''error'',
              js_or (js_get (data (sendInvite_result env
                       (env_fetch env i \<lparr>req_url = API_URL, req_body = buildInvitePayload e\<rparr>)))
                     ''error'')
                (JStr ''Invite failed''))])
       (filter (\<lambda>(i, e). \<not> ok (sendInvite_result env
                   (env_fetch env i \<lparr>req_url = API_URL, req_body = buildInvitePayload e\<rparr>)))
          (enumerate (length calls) es))"
  by (induction es arbitrary: failures calls) (simp_all add: sendInvite_def Let_def)

text \<open>
  Claim C3. In bulk mode, when the entries to submit (those of the uploaded file, or
  else the valid rows typed by hand) are more than 100, the handler makes no outbound
  call and ends with the error \<^verbatim>\<open>Bulk invite limit is 100 rows per submission.\<close>
  (or, when the API address itself is not accepted, with the error about the address,
  also without a call).
\<close>

theorem bulk_cap_no_calls:
  assumes "st_mode s \<noteq> ''single''"
    and "bulk_entries env s = Some (es, validationErrors)"
    and "length es > MAX_BULK_INVITES"
  shows "snd (inviteGuest env s calls) = calls
       \<and> st_result (fst (inviteGuest env s calls)) =
           Some (fail_with (if isValidHttpUrl (env_URL env) API_URL
                            then ''Bulk invite limit is 100 rows per submission.''
                            else ''Enter a valid API URL to continue.''))"
proof -
  have n: "string_of_nat MAX_BULK_INVITES = ''100''"
    unfolding MAX_BULK_INVITES_def by code_simp
  from assms(3) have "es \<noteq> []"
    by auto
  with assms show ?thesis
    by (simp add: inviteGuest_def inviteGuest_bulk_def inviteGuest_submit_def n)
qed

theorem bulk_cap_no_calls_witness:
  "snd (inviteGuest sample_env
          (sample_state\<lparr>st_bulkEntriesFromFile :=
             replicate 101 [(''email'', JStr ''a@x.io'')]\<rparr>) []) = []
   \<and> st_result (fst (inviteGuest sample_env
          (sample_state\<lparr>st_bulkEntriesFromFile :=
             replicate 101 [(''email'', JStr ''a@x.io'')]\<rparr>) []))
       = Some (fail_with ''Bulk invite limit is 100 rows per submission.'')"
proof -
  let ?s = "sample_state\<lparr>st_bulkEntriesFromFile := replicate 101 [(''email'', JStr ''a@x.io'')]\<rparr>"
  let ?es = "map (\<lambda>entry. obj_set (obj_spread [] entry) ''resetRedemption''
                       (JBool (st_resetRedemptionFlag ?s)))
               (replicate 101 [(''email'', JStr ''a@x.io'')])"
  have h1: "st_mode ?s \<noteq> ''single''"
    by (simp add: sample_state_def)
  have h2: "bulk_entries sample_env ?s = Some (?es, [])"
    by (simp add: bulk_entries_def)
  have h3: "length ?es > MAX_BULK_INVITES"
    by (simp add: MAX_BULK_INVITES_def)
  have a: "isValidHttpUrl (env_URL sample_env) API_URL"
    by code_simp
  from bulk_cap_no_calls [OF h1 h2 h3, of "[]"] a show ?thesis
    by simp
qed

text \<open>
  Claim C8. In bulk mode with between 1 and 100 entries to submit, the handler makes
  exactly one outbound call for each entry, in the order of the entries, whatever the
  network answers to earlier calls; the failures of the aggregate result are the
  entries whose call did not succeed, in the same order, each with its error.
\<close>

theorem bulk_sequential:
  assumes "st_mode s \<noteq> ''single''"
    and "isValidHttpUrl (env_URL env) API_URL"
    and "bulk_entries env s = Some (es, validationErrors)"
    and "es \<noteq> []"
    and "length es \<le> MAX_BULK_INVITES"
  shows "snd (inviteGuest env s calls) =
           calls @ map (\<lambda>e. \<lparr>req_url = API_URL, req_body = buildInvitePayload e\<rparr>) es
       \<and> (\<exists>r. st_result (fst (inviteGuest env s calls)) = Some r
             \<and> js_get (data r) ''failures'' =
                 JArr (map (\<lambda>(i, e). JObj [(''email'', obj_get e ''email''),
                         (''error'',
                          js_or (js_get (data (sendInvite_result env
                                   (env_fetch env i \<lparr>req_url = API_URL, req_body = buildInvitePayload e\<rparr>)))
                                 ''error'')
                            (JStr ''Invite failed''))])
                   (filter (\<lambda>(i, e). \<not> ok (sendInvite_result env
                               (env_fetch env i \<lparr>req_url = API_URL, req_body = buildInvitePayload e\<rparr>)))
                      (enumerate (length calls) es))))"
proof -
  obtain failures calls' where sub: "submit_entries env es [] calls = (failures, calls')"
    by (cases "submit_entries env es [] calls")
  from sub have c: "calls' = calls @ map (\<lambda>e. \<lparr>req_url = API_URL, req_body = buildInvitePayload e\<rparr>) es"
    using submit_entries_calls [of env es "[]" calls] by simp
  from sub have f: "failures =
     map (\<lambda>(i, e). JObj [(''email'', obj_get e ''email''),
             (''error'',
              js_or (js_get (data (sendInvite_result env
                       (env_fetch env i \<lparr>req_url = API_URL, req_body = buildInvitePayload e\<rparr>)))
                     ''error'')
                (JStr ''Invite failed''))])
       (filter (\<lambda>(i, e). \<not> ok (sendInvite_result env
                   (env_fetch env i \<lparr>req_url = API_URL, req_body = buildInvitePayload e\<rparr>)))
          (enumerate (length calls) es))"
    using submit_entries_failures [of env es "[]" calls] by simp
  have run: "inviteGuest env s calls = inviteGuest_submit env s es validationErrors calls"
    using assms by (simp add: inviteGuest_def inviteGuest_bulk_def)
  have "snd (inviteGuest_submit env s es validationErrors calls) = calls'"
    using assms(4,5) sub by (simp add: inviteGuest_submit_def Let_def)
  moreover have "\<exists>r. st_result (fst (inviteGuest_submit env s es validationErrors calls)) = Some r
      \<and> js_get (data r) ''failures'' = JArr failures"
    using assms(4,5) sub by (simp add: inviteGuest_submit_def Let_def obj_get_def)
  ultimately show ?thesis
    unfolding run c f by simp
qed

theorem bulk_sequential_witness:
  "map (\<lambda>r. obj_get (req_body r) ''email'') (snd (inviteGuest sample_env sample_state []))
     = [JStr ''a@x.io'', JStr ''b@x.io'', JStr ''c@x.io'', JStr ''d@x.io'']
   \<and> (\<exists>r. st_result (fst (inviteGuest sample_env sample_state [])) = Some r
         \<and> js_get (data r) ''failures'' =
             JArr [JObj [(''email'', JStr ''b@x.io''), (''error'', JStr ''denied'')],
                   JObj [(''email'', JStr ''c@x.io''),
                         (''error'', JStr ''Request timed out. Try again.'')]])"
proof -
  let ?p = "parseManualBulk ''a@x.io\<newline>bad\<newline>b@x.io\<newline>c@x.io\<newline>d@x.io''
              [(''redirectUrl'', JStr ''https://myapplications.microsoft.com''),
               (''sendEmail'', JBool True), (''customizedMessageBody'', JStr ''''),
               (''resetRedemption'', JBool False)]"
  have h1: "st_mode sample_state \<noteq> ''single''"
    by (simp add: sample_state_def)
  have h2: "isValidHttpUrl (env_URL sample_env) API_URL"
    by code_simp
  have h3: "bulk_entries sample_env sample_state = Some (entries ?p, errors ?p)"
    by code_simp
  have h4: "entries ?p \<noteq> []"
    by code_simp
  have h5: "length (entries ?p) \<le> MAX_BULK_INVITES"
    by code_simp
  have e1: "map (\<lambda>r. obj_get (req_body r) ''email'')
      ([] @ map (\<lambda>e. \<lparr>req_url = API_URL, req_body = buildInvitePayload e\<rparr>) (entries ?p))
     = [JStr ''a@x.io'', JStr ''b@x.io'', JStr ''c@x.io'', JStr ''d@x.io'']"
    by code_simp
  have e2: "map (\<lambda>(i, e). JObj [(''email'', obj_get e ''email''),
                         (''error'',
                          js_or (js_get (data (sendInvite_result sample_env
                                   (env_fetch sample_env i \<lparr>req_url = API_URL, req_body = buildInvitePayload e\<rparr>)))
                                 ''error'')
                            (JStr ''Invite failed''))])
                   (filter (\<lambda>(i, e). \<not> ok (sendInvite_result sample_env
                               (env_fetch sample_env i \<lparr>req_url = API_URL, req_body = buildInvitePayload e\<rparr>)))
                      (enumerate (length ([] :: net_request list)) (entries ?p)))
     = [JObj [(''email'', JStr ''b@x.io''), (''error'', JStr ''denied'')],
        JObj [(''email'', JStr ''c@x.io''), (''error'', JStr ''Request timed out. Try again.'')]]"
    by code_simp
  note run = bulk_sequential [OF h1 h2 h3 h4 h5, of "[]"]
  from run have c: "snd (inviteGuest sample_env sample_state []) =
      [] @ map (\<lambda>e. \<lparr>req_url = API_URL, req_body = buildInvitePayload e\<rparr>) (entries ?p)"
    by (rule conjunct1)
  from run [unfolded e2] have f:
    "\<exists>r. st_result (fst (inviteGuest sample_env sample_state [])) = Some r
         \<and> js_get (data r) ''failures'' =
             JArr [JObj [(''email'', JStr ''b@x.io''), (''error'', JStr ''denied'')],
                   JObj [(''email'', JStr ''c@x.io''),
                         (''error'', JStr ''Request timed out. Try again.'')]]"
    by (rule conjunct2)
  have "map (\<lambda>r. obj_get (req_body r) ''email'') (snd (inviteGuest sample_env sample_state []))
     = [JStr ''a@x.io'', JStr ''b@x.io'', JStr ''c@x.io'', JStr ''d@x.io'']"
    unfolding c by (rule e1)
  from this f show ?thesis
    by (rule conjI)
qed

section \<open>The back end: traces of the directory calls\<close>

lemma snd_graphRequest: "snd (graphRequest env call trace) = trace @ [GraphFetch call]"
  by (simp add: graphRequest_def Let_def split: sum.splits)

lemma graphRequest_trace:
  "graphRequest env call trace = (r, trace') \<Longrightarrow> trace' = trace @ [GraphFetch call]"
  using snd_graphRequest [of env call trace] by simp

lemma graphRequest_pair:
  "graphRequest env call trace = (fst (graphRequest env call trace), trace @ [GraphFetch call])"
  by (metis prod.collapse snd_graphRequest)

lemma authorize_caller_trace:
  assumes "authorize_caller cfg env tok oid caller trace = (r, trace')"
  shows "\<exists>calls. trace' = trace @ map GraphFetch calls \<and> (\<forall>c \<in> set calls. gc_method c = ''POST'')"
proof -
  from assms have "trace' = trace \<or> (\<exists>c. gc_method c = ''POST'' \<and> trace' = trace @ [GraphFetch c])"
    by (auto simp: authorize_caller_def Let_def
        split: if_splits prod.splits sum.splits option.splits dest!: graphRequest_trace)
  then show ?thesis
  proof
    assume "trace' = trace"
    then show ?thesis by (intro exI [of _ "[]"]) simp
  next
    assume "\<exists>c. gc_method c = ''POST'' \<and> trace' = trace @ [GraphFetch c]"
    then obtain c where "gc_method c = ''POST''" "trace' = trace @ [GraphFetch c]"
      by blast
    then show ?thesis by (intro exI [of _ "[c]"]) simp
  qed
qed

lemma authorizeInviter_trace:
  assumes "authorizeInviter cfg env request tok trace = (r, trace')"
  shows "\<exists>calls. trace' = trace @ map GraphFetch calls
           \<and> (\<forall>c \<in> set calls. gc_method c = ''GET'' \<or> gc_method c = ''POST'')"
proof -
  let ?p = "decodeClientPrincipal env request"
  let ?oid = "getCallerObjectId ?p"
  have none: ?thesis if "trace' = trace"
    using that by (intro exI [of _ "[]"]) simp
  show ?thesis
  proof (cases "(\<not> IS_AZURE_RUNTIME cfg \<and> ALLOW_LOCAL_ANONYMOUS_INVITE cfg)
                  \<or> \<not> truthy ?p \<or> \<not> truthy ?oid")
    case True
    with assms have "trace' = trace"
      by (auto simp: authorizeInviter_def Let_def split: if_splits)
    then show ?thesis by (rule none)
  next
    case False
    show ?thesis
    proof (cases "js_ToString ?oid")
      case None
      with assms False have "trace' = trace"
        by (auto simp: authorizeInviter_def Let_def split: if_splits)
      then show ?thesis by (rule none)
    next
      case (Some oidText)
      define c where "c = \<lparr>gc_method = ''GET'',
                   gc_url = GRAPH_BASE @ ''/users/'' @ oidText
                            @ ''?$select=id,displayName,userPrincipalName,userType,accountEnabled'',
                   gc_token = tok, gc_body = JUndefined\<rparr>"
      have m: "gc_method c = ''GET''"
        by (simp add: c_def)
      have g: "graphRequest env c trace = (fst (graphRequest env c trace), trace @ [GraphFetch c])"
        by (rule graphRequest_pair)
      have run: "authorizeInviter cfg env request tok trace =
          (case fst (graphRequest env c trace) of
             Inl e \<Rightarrow> (Inl e, trace @ [GraphFetch c])
           | Inr caller \<Rightarrow> authorize_caller cfg env tok ?oid caller (trace @ [GraphFetch c]))"
      proof -
        have "authorizeInviter cfg env request tok trace =
            (case graphRequest env c trace of
               (Inl e, trace1) \<Rightarrow> (Inl e, trace1)
             | (Inr caller, trace1) \<Rightarrow> authorize_caller cfg env tok ?oid caller trace1)"
          using False Some by (auto simp: authorizeInviter_def Let_def c_def)
        also have "\<dots> = (case fst (graphRequest env c trace) of
             Inl e \<Rightarrow> (Inl e, trace @ [GraphFetch c])
           | Inr caller \<Rightarrow> authorize_caller cfg env tok ?oid caller (trace @ [GraphFetch c]))"
          by (subst g) (simp split: sum.split)
        finally show ?thesis .
      qed
      show ?thesis
      proof (cases "fst (graphRequest env c trace)")
        case (Inl e)
        with run assms have "trace' = trace @ [GraphFetch c]"
          by simp
        with m show ?thesis by (intro exI [of _ "[c]"]) simp
      next
        case (Inr caller)
        with run assms have "authorize_caller cfg env tok ?oid caller (trace @ [GraphFetch c]) = (r, trace')"
          by simp
        from authorize_caller_trace [OF this] obtain calls where
          "trace' = (trace @ [GraphFetch c]) @ map GraphFetch calls"
          "\<forall>c \<in> set calls. gc_method c = ''POST''"
          by blast
        with m show ?thesis by (intro exI [of _ "c # calls"]) simp
      qed
    qed
  qed
qed

lemma authorize_caller_misconfigured:
  assumes "IS_AZURE_RUNTIME cfg" "ENFORCE_GROUP_MEMBERSHIP_IN_AZURE cfg"
    and "ALLOWED_INVITER_GROUP_OBJECT_IDS cfg = []"
  shows "authorize_caller cfg env tok oid caller trace =
     (if \<not> truthy (js_get caller ''id'') \<or> js_get caller ''accountEnabled'' = JBool False then
        (Inr (Denied 403 ''Forbidden. Caller account is not active.''), trace)
      else if js_get caller ''userType'' \<noteq> JStr ''Member'' then
        (Inr (Denied 403 ''Forbidden. Only tenant Member users can send invites.''), trace)
      else
        (Inr (Denied 500
           ''Server misconfiguration. ALLOWED_INVITER_GROUP_OBJECT_IDS must be set in Azure.''),
         trace))"
  using assms by (simp add: authorize_caller_def)

section \<open>C2: authorization without an allowed group\<close>

text \<open>
  Claim C2, amended. In the managed environment with enforcement enabled and no
  allowed group, \<^verbatim>\<open>authorizeInviter\<close> never authorizes. It answers 401 when the request
  has no client principal or the principal has no object identifier. It ends with an
  error, not a denial, when the object identifier cannot be converted to a string for
  the address of the profile, or when the profile cannot be fetched. It answers 403
  when the profile is missing, disabled or not a Member, and 500 (server
  misconfiguration) when the profile is that of an enabled Member.
\<close>

theorem authorizeInviter_misconfigured:
  assumes az: "IS_AZURE_RUNTIME cfg" and en: "ENFORCE_GROUP_MEMBERSHIP_IN_AZURE cfg"
    and gr: "ALLOWED_INVITER_GROUP_OBJECT_IDS cfg = []"
    and p: "p = decodeClientPrincipal env request"
  shows "fst (authorizeInviter cfg env request tok trace) =
     (if \<not> truthy p then
        Inr (Denied 401
          ''Unauthorized. Enable App Service Authentication and call this API as a signed-in internal user.'')
      else if \<not> truthy (getCallerObjectId p) then
        Inr (Denied 401 ''Unauthorized. Caller object ID claim is missing.'')
      else case js_ToString (getCallerObjectId p) of
        None \<Rightarrow> Inl cannot_convert
      | Some oidText \<Rightarrow>
          (case fst (graphRequest env
                  \<lparr>gc_method = ''GET'',
                   gc_url = GRAPH_BASE @ ''/users/'' @ oidText
                            @ ''?$select=id,displayName,userPrincipalName,userType,accountEnabled'',
                   gc_token = tok, gc_body = JUndefined\<rparr> trace) of
             Inl e \<Rightarrow> Inl e
           | Inr caller \<Rightarrow>
               if \<not> truthy (js_get caller ''id'') \<or> js_get caller ''accountEnabled'' = JBool False then
                 Inr (Denied 403 ''Forbidden. Caller account is not active.'')
               else if js_get caller ''userType'' \<noteq> JStr ''Member'' then
                 Inr (Denied 403 ''Forbidden. Only tenant Member users can send invites.'')
               else
                 Inr (Denied 500
                   ''Server misconfiguration. ALLOWED_INVITER_GROUP_OBJECT_IDS must be set in Azure.'')))
   \<and> (\<forall>authMode caller.
         fst (authorizeInviter cfg env request tok trace) \<noteq> Inr (Authorized authMode caller))"
proof -
  let ?get = "\<lambda>oidText. \<lparr>gc_method = ''GET'',
                   gc_url = GRAPH_BASE @ ''/users/'' @ oidText
                            @ ''?$select=id,displayName,userPrincipalName,userType,accountEnabled'',
                   gc_token = tok, gc_body = JUndefined\<rparr>"
  have pair: "graphRequest env (?get oidText) trace =
      (fst (graphRequest env (?get oidText) trace), trace @ [GraphFetch (?get oidText)])" for oidText
    by (rule graphRequest_pair)
  have first: "fst (authorizeInviter cfg env request tok trace) =
     (if \<not> truthy p then
        Inr (Denied 401
          ''Unauthorized. Enable App Service Authentication and call this API as a signed-in internal user.'')
      else if \<not> truthy (getCallerObjectId p) then
        Inr (Denied 401 ''Unauthorized. Caller object ID claim is missing.'')
      else case js_ToString (getCallerObjectId p) of
        None \<Rightarrow> Inl cannot_convert
      | Some oidText \<Rightarrow>
          (case fst (graphRequest env (?get oidText) trace) of
             Inl e \<Rightarrow> Inl e
           | Inr caller \<Rightarrow>
               if \<not> truthy (js_get caller ''id'') \<or> js_get caller ''accountEnabled'' = JBool False then
                 Inr (Denied 403 ''Forbidden. Caller account is not active.'')
               else if js_get caller ''userType'' \<noteq> JStr ''Member'' then
                 Inr (Denied 403 ''Forbidden. Only tenant Member users can send invites.'')
               else
                 Inr (Denied 500
                   ''Server misconfiguration. ALLOWED_INVITER_GROUP_OBJECT_IDS must be set in Azure.'')))"
    unfolding authorizeInviter_def Let_def p [symmetric]
    using az
    by (subst pair)
       (simp add: authorize_caller_misconfigured [OF az en gr] split: sum.split option.split)
  have "fst (authorizeInviter cfg env request tok trace) \<noteq> Inr (Authorized authMode caller)"
    for authMode caller
    unfolding first by (simp split: sum.split option.split)
  with first show ?thesis
    by blast
qed


theorem authorizeInviter_misconfigured_witness:
  "fst (authorizeInviter sample_managed_config sample_back_env
          \<lparr>rq_json = None, rq_client_principal = Some ''eyJ1c2VySWQiOiJ1LTEifQ==''\<rparr>
          (Some ''t'') [])
     = Inr (Denied 500
         ''Server misconfiguration. ALLOWED_INVITER_GROUP_OBJECT_IDS must be set in Azure.'')"
proof -
  let ?rq = "\<lparr>rq_json = None, rq_client_principal = Some ''eyJ1c2VySWQiOiJ1LTEifQ==''\<rparr>"
  have az: "IS_AZURE_RUNTIME sample_managed_config"
    and en: "ENFORCE_GROUP_MEMBERSHIP_IN_AZURE sample_managed_config"
    and gr: "ALLOWED_INVITER_GROUP_OBJECT_IDS sample_managed_config = []"
    by (simp_all add: sample_managed_config_def)
  have p: "JObj [(''userId'', JStr ''u-1'')] = decodeClientPrincipal sample_back_env ?rq"
    by code_simp
  have o: "getCallerObjectId (JObj [(''userId'', JStr ''u-1'')]) = JStr ''u-1''"
    by code_simp
  have g: \<open>fst (graphRequest sample_back_env
              \<lparr>gc_method = ''GET'',
               gc_url = GRAPH_BASE
                        @ ''/users/u-1?$select=id,displayName,userPrincipalName,userType,accountEnabled'',
               gc_token = Some ''t'', gc_body = JUndefined\<rparr> [])
      = Inr (JObj [(''id'', JStr ''u-1''), (''userType'', JStr ''Member''),
                   (''accountEnabled'', JBool True)])\<close>
    by code_simp
  from authorizeInviter_misconfigured [OF az en gr p, of "Some ''t''" "[]"] show ?thesis
    unfolding o by (simp add: g obj_get_def)
qed

text \<open>
  Claim C2 as stated has status 500 whatever the caller presents. In the managed
  configuration without an allowed group, a request without a client principal is
  denied with status 401, before any directory call.
\<close>

theorem authorizeInviter_no_principal_counterexample:
  "IS_AZURE_RUNTIME sample_managed_config
   \<and> ENFORCE_GROUP_MEMBERSHIP_IN_AZURE sample_managed_config
   \<and> ALLOWED_INVITER_GROUP_OBJECT_IDS sample_managed_config = []
   \<and> authorizeInviter sample_managed_config sample_back_env
        \<lparr>rq_json = None, rq_client_principal = None\<rparr> (Some ''t'') []
      = (Inr (Denied 401
           ''Unauthorized. Enable App Service Authentication and call this API as a signed-in internal user.''),
         [])"
  by code_simp

text \<open>
  In the same configuration, a principal whose \<^verbatim>\<open>userId\<close> is the object
  \<^verbatim>\<open>{"toString":1}\<close> has an object identifier that cannot be written into the address
  of the profile: the function ends with the TypeError and has made no call.
\<close>

lemma authorizeInviter_unprintable_identifier:
  "authorizeInviter sample_managed_config sample_back_env
     \<lparr>rq_json = None, rq_client_principal = Some ''eyJ1c2VySWQiOnsidG9TdHJpbmciOjF9fQ==''\<rparr>
     (Some ''t'') []
   = (Inl (TypeError ''Cannot convert object to primitive value''), [])"
  by code_simp

section \<open>C9: a request without an email\<close>

text \<open>
  Claim C9. For a request whose body has no \<^verbatim>\<open>email\<close> (or an empty one), an
  unparsable body counting as the empty object, the handler makes no token request and
  no directory call, and its answer is one of three. It is 400 with
  \<^verbatim>\<open>email is required\<close>, as the claim says, unless an error is thrown before the test
  of \<^verbatim>\<open>email\<close>. Two bodies throw there, and the handler's \<^verbatim>\<open>catch\<close> answers 500 with
  the message of the TypeError: the body \<^verbatim>\<open>null\<close>, whose \<^verbatim>\<open>email\<close> cannot be read,
  and a body without a display name one of whose names cannot be converted to a string.
\<close>

theorem inviteGuest_handler_missing_email:
  assumes "body = (case rq_json request of None \<Rightarrow> JObj [] | Some v \<Rightarrow> v)"
    and "\<not> truthy (js_get body ''email'')"
  shows "inviteGuest_handler cfg env request =
     (if body = JNull \<or> body = JUndefined then
        \<lparr>status = JNum 500,
         jsonBody = JObj
           [(''error'', JStr (''Cannot read properties of ''
                              @ (if body = JNull then ''null'' else ''undefined'')
                              @ '' (reading '' @ [CHR 0x27] @ ''email'' @ [CHR 0x27] @ '')'')),
            (''details'', JNull), (''requestId'', JNull), (''clientRequestId'', JNull),
            (''wwwAuthenticate'', JNull), (''runtime'', JNull),
            (''azClientIdConfigured'', JBool False)]\<rparr>
      else if request_displayName body = None then
        \<lparr>status = JNum 500,
         jsonBody = JObj
           [(''error'', JStr ''Cannot convert object to primitive value''),
            (''details'', JNull), (''requestId'', JNull), (''clientRequestId'', JNull),
            (''wwwAuthenticate'', JNull), (''runtime'', JNull),
            (''azClientIdConfigured'', JBool False)]\<rparr>
      else
        \<lparr>status = JNum 400, jsonBody = JObj [(''error'', JStr ''email is required'')]\<rparr>,
      [])"
proof -
  have c: "catch_result None (TypeError msg) =
      \<lparr>status = JNum 500,
       jsonBody = JObj
         [(''error'', js_or (JStr msg) (JStr ''Unknown error'')),
          (''details'', JNull), (''requestId'', JNull), (''clientRequestId'', JNull),
          (''wwwAuthenticate'', JNull), (''runtime'', JNull),
          (''azClientIdConfigured'', JBool False)]\<rparr>" for msg
    by (simp add: catch_result_def TypeError_def js_or_def runtime_mode_def runtime_configured_def)
  show ?thesis
  proof (cases "body = JNull \<or> body = JUndefined")
    case True
    then show ?thesis
      unfolding inviteGuest_handler_def assms(1) [symmetric] Let_def
      by (auto simp: c js_or_def)
  next
    case False
    show ?thesis
    proof (cases "request_displayName body")
      case None
      with False show ?thesis
        unfolding inviteGuest_handler_def assms(1) [symmetric] Let_def
        by (simp add: c cannot_convert_def js_or_def)
    next
      case (Some displayName)
      with False assms(2) show ?thesis
        unfolding inviteGuest_handler_def assms(1) [symmetric] Let_def
        by simp
    qed
  qed
qed

theorem inviteGuest_handler_missing_email_witness:
  "inviteGuest_handler sample_managed_config sample_back_env
     \<lparr>rq_json = Some (JObj [(''displayName'', JStr ''Guest'')]), rq_client_principal = None\<rparr> =
   (\<lparr>status = JNum 400, jsonBody = JObj [(''error'', JStr ''email is required'')]\<rparr>, [])"
proof -
  let ?rq = "\<lparr>rq_json = Some (JObj [(''displayName'', JStr ''Guest'')]), rq_client_principal = None\<rparr>"
  let ?body = "JObj [(''displayName'', JStr ''Guest'')]"
  have b: "?body = (case rq_json ?rq of None \<Rightarrow> JObj [] | Some v \<Rightarrow> v)"
    by simp
  have e: "\<not> truthy (js_get ?body ''email'')"
    by (simp add: obj_get_def)
  have d: "request_displayName ?body = Some (JStr ''Guest'')"
    by (simp add: request_displayName_def obj_get_def)
  from inviteGuest_handler_missing_email [OF b e, of sample_managed_config sample_back_env]
  show ?thesis
    by (simp add: d)
qed

text \<open>The two bodies without an email that the handler answers with 500.\<close>

lemma inviteGuest_handler_null_body:
  "inviteGuest_handler sample_managed_config sample_back_env
     \<lparr>rq_json = Some JNull, rq_client_principal = None\<rparr> =
   (\<lparr>status = JNum 500,
     jsonBody = JObj
       [(''error'', JStr (''Cannot read properties of null (reading ''
                          @ [CHR 0x27] @ ''email'' @ [CHR 0x27] @ '')'')),
        (''details'', JNull), (''requestId'', JNull), (''clientRequestId'', JNull),
        (''wwwAuthenticate'', JNull), (''runtime'', JNull),
        (''azClientIdConfigured'', JBool False)]\<rparr>,
    [])"
  by code_simp

lemma inviteGuest_handler_unprintable_name:
  "inviteGuest_handler sample_managed_config sample_back_env
     \<lparr>rq_json = Some (JObj [(''firstName'', JObj [(''toString'', JNum 1)])]),
      rq_client_principal = None\<rparr> =
   (\<lparr>status = JNum 500,
     jsonBody = JObj
       [(''error'', JStr ''Cannot convert object to primitive value''),
        (''details'', JNull), (''requestId'', JNull), (''clientRequestId'', JNull),
        (''wwwAuthenticate'', JNull), (''runtime'', JNull),
        (''azClientIdConfigured'', JBool False)]\<rparr>,
    [])"
  by code_simp

section \<open>C10: an invitation without the invited user\<close>

text \<open>
  Claim C10. Take a run of the handler that reaches the invitation call: the request
  has an email, its display name is computed, the token is obtained and the caller is
  authorized. When that call succeeds with an answer that has no \<^verbatim>\<open>invitedUser.id\<close>,
  the handler answers 500 with \<^verbatim>\<open>Invite succeeded but invitedUser.id not returned\<close>
  and the answer of the directory as it came, and no PATCH is among the directory calls
  that were made.
\<close>

theorem inviteGuest_handler_no_invited_user:
  assumes b: "rq_json request = Some body" "body \<noteq> JNull" "body \<noteq> JUndefined"
      "truthy (js_get body ''email'')"
    and d: "request_displayName body = Some displayName"
    and t: "be_getToken env = Inr token"
    and a: "authorizeInviter cfg env request token [GetToken]
              = (Inr (Authorized authMode caller), trace1)"
    and i: "graphRequest env
              \<lparr>gc_method = ''POST'', gc_url = GRAPH_BASE @ ''/invitations'',
               gc_token = token, gc_body = invitationBody body displayName\<rparr> trace1
              = (Inr invitation, trace2)"
    and n: "\<not> truthy (js_get (js_get invitation ''invitedUser'') ''id'')"
  shows "inviteGuest_handler cfg env request =
           (\<lparr>status = JNum 500,
             jsonBody = JObj [(''error'', JStr ''Invite succeeded but invitedUser.id not returned''),
                              (''invitation'', invitation)]\<rparr>,
            trace2)
       \<and> (\<forall>c. GraphFetch c \<in> set trace2 \<longrightarrow> gc_method c \<noteq> ''PATCH'')"
proof -
  have run: "inviteGuest_handler cfg env request =
           (\<lparr>status = JNum 500,
             jsonBody = JObj [(''error'', JStr ''Invite succeeded but invitedUser.id not returned''),
                              (''invitation'', invitation)]\<rparr>,
            trace2)"
    using b d t a i n
    by (simp add: inviteGuest_handler_def getGraphAccessToken_def Let_def)
  from authorizeInviter_trace [OF a] obtain calls where
    c: "trace1 = [GetToken] @ map GraphFetch calls"
    and m: "\<forall>c \<in> set calls. gc_method c = ''GET'' \<or> gc_method c = ''POST''"
    by blast
  from graphRequest_trace [OF i] have t2: "trace2 = trace1 @
      [GraphFetch \<lparr>gc_method = ''POST'', gc_url = GRAPH_BASE @ ''/invitations'',
               gc_token = token, gc_body = invitationBody body displayName\<rparr>]" .
  have "gc_method c \<noteq> ''PATCH''" if "GraphFetch c \<in> set trace2" for c
  proof -
    from that have "c \<in> set calls \<or> gc_method c = ''POST''"
      unfolding t2 c by auto
    with m show ?thesis
      by auto
  qed
  with run show ?thesis
    by blast
qed

theorem inviteGuest_handler_no_invited_user_witness:
  "\<exists>trace. inviteGuest_handler sample_local_config sample_back_env
     \<lparr>rq_json = Some (JObj [(''email'', JStr ''guest@external.com'')]), rq_client_principal = None\<rparr> =
    (\<lparr>status = JNum 500,
      jsonBody = JObj [(''error'', JStr ''Invite succeeded but invitedUser.id not returned''),
                       (''invitation'', JObj [])]\<rparr>,
     trace)
    \<and> (\<forall>c. GraphFetch c \<in> set trace \<longrightarrow> gc_method c \<noteq> ''PATCH'')"
proof -
  let ?rq = "\<lparr>rq_json = Some (JObj [(''email'', JStr ''guest@external.com'')]),
              rq_client_principal = None\<rparr>"
  let ?body = "JObj [(''email'', JStr ''guest@external.com'')]"
  let ?caller = "JObj [(''userType'', JStr ''Member''), (''id'', JStr ''local-dev'')]"
  let ?post = "\<lparr>gc_method = ''POST'', gc_url = GRAPH_BASE @ ''/invitations'',
               gc_token = Some ''t'',
               gc_body = invitationBody ?body (JStr ''guest@external.com'')\<rparr>"
  have b: "rq_json ?rq = Some ?body" "?body \<noteq> JNull" "?body \<noteq> JUndefined"
    "truthy (js_get ?body ''email'')"
    by (simp_all add: obj_get_def)
  have d: "request_displayName ?body = Some (JStr ''guest@external.com'')"
    by code_simp
  have t: "be_getToken sample_back_env = Inr (Some ''t'')"
    by (simp add: sample_back_env_def)
  have a: "authorizeInviter sample_local_config sample_back_env ?rq (Some ''t'') [GetToken]
      = (Inr (Authorized ''local_bypass'' ?caller), [GetToken])"
    by (simp add: authorizeInviter_def sample_local_config_def)
  have i: "graphRequest sample_back_env ?post [GetToken] = (Inr (JObj []), [GetToken, GraphFetch ?post])"
    by (simp add: graphRequest_def sample_back_env_def tryParseJson_def)
  have n: "\<not> truthy (js_get (js_get (JObj []) ''invitedUser'') ''id'')"
    by (simp add: obj_get_def)
  from inviteGuest_handler_no_invited_user [OF b d t a i n] show ?thesis
    by blast
qed

text \<open>
  A body with an email and a first name that cannot be converted to a string never
  reaches the invitation call: the handler answers 500 from \<^verbatim>\<open>catch\<close> without a token
  request.
\<close>

lemma inviteGuest_handler_unprintable_name_with_email:
  "inviteGuest_handler sample_local_config sample_back_env
     \<lparr>rq_json = Some (JObj [(''email'', JStr ''g@x.io''),
                             (''firstName'', JObj [(''toString'', JNum 1)])]),
      rq_client_principal = None\<rparr> =
   (\<lparr>status = JNum 500,
     jsonBody = JObj
       [(''error'', JStr ''Cannot convert object to primitive value''),
        (''details'', JNull), (''requestId'', JNull), (''clientRequestId'', JNull),
        (''wwwAuthenticate'', JNull), (''runtime'', JNull),
        (''azClientIdConfigured'', JBool False)]\<rparr>,
    [])"
  by code_simp

end
